theory Spec2Isabelle
  imports Complex_Main "HOL-Library.Sublist"
begin

section \<open>Python values shared by the modules\<close>

text \<open>
  The exceptions that the modelled code can raise from its own statements: a missing
  dictionary key, an operation on a value of the wrong type, a method missing on a value,
  a dictionary that changes size while it is iterated, and a failed HTTP call.
\<close>

datatype py_error = KeyError | TypeError | AttributeError | RuntimeError | ClientError

text \<open>
  The page argument of the handlers is documented as "either a string for Instagram or a
  config object for Facebook"; both handlers test \<open>isinstance(page_id, str)\<close> first.
\<close>

datatype page_arg = PageId string | PageConfigObject

definition instagram_page_id :: string where
  "instagram_page_id = ''17841456783426236''"

definition rodood_facebook_page_id :: string where
  "rodood_facebook_page_id = ''420350114484751''"

definition map_instagram :: "string \<Rightarrow> string" where
  "map_instagram page_id =
     (if page_id = instagram_page_id then rodood_facebook_page_id else page_id)"

text \<open>The message dictionary of a webhook event: the keys the handlers look at.\<close>

record received_message =
  mid :: "string option"
  text_of :: "string option"
  has_attachments :: bool

section \<open>The batching queue: \<open>handle_message.py\<close>\<close>

text \<open>
  \<open>messages_queue\<close> is a module-level dict from sender id to an entry. Python dicts keep
  insertion order and the code iterates over it, so it is an association list with one
  pair per key: a new key is appended, an existing entry is updated in place, \<open>del\<close>
  removes the pair.
\<close>

record batch_entry =
  entry_page_id :: string
  user_messages_queue :: "string list"
  first_message_time :: int

type_synonym messages_queue = "(string \<times> batch_entry) list"

type_synonym handler_call = "string \<times> string \<times> string"

definition delete_key :: "string \<Rightarrow> messages_queue \<Rightarrow> messages_queue" where
  "delete_key k q = filter (\<lambda>(k', e). k' \<noteq> k) q"

definition queued_messages :: "messages_queue \<Rightarrow> string \<Rightarrow> string list" where
  "queued_messages q k = (case map_of q k of None \<Rightarrow> [] | Some e \<Rightarrow> user_messages_queue e)"

definition first_seen :: "messages_queue \<Rightarrow> string \<Rightarrow> int" where
  "first_seen q k = (case map_of q k of None \<Rightarrow> 0 | Some e \<Rightarrow> first_message_time e)"

text \<open>\<open>' '.join(xs)\<close>\<close>

fun join_space :: "string list \<Rightarrow> string" where
  "join_space [] = []"
| "join_space [x] = x"
| "join_space (x # y # ys) = x @ '' '' @ join_space (y # ys)"

text \<open>
  Lines 263 to 271 of \<open>merge_user_messages\<close>: create the entry when the sender has
  none, stamping it with the time of this call, then append the text.
\<close>

definition enqueue :: "messages_queue \<Rightarrow> string \<Rightarrow> string \<Rightarrow> int \<Rightarrow> string \<Rightarrow> messages_queue" where
  "enqueue q senderPSID page_id current_unix_time txt =
     (let q1 = (if map_of q senderPSID = None
                then q @ [(senderPSID, \<lparr>entry_page_id = page_id, user_messages_queue = [],
                                        first_message_time = current_unix_time\<rparr>)]
                else q)
      in map (\<lambda>(k, e). if k = senderPSID
                         then (k, e\<lparr>user_messages_queue := user_messages_queue e @ [txt]\<rparr>)
                         else (k, e)) q1)"

text \<open>
  The three readings of \<open>time.time()\<close> that one call of \<open>merge_user_messages\<close> makes
  (lines 259, 276 and 309), in seconds.
\<close>

record clock =
  t_entry :: rat
  t_first_check :: rat
  t_second_check :: rat

text \<open>
  What a call leaves behind: the queue, and the calls
  \<open>get_assistant_response(senderPSID, {'text': ...}, page_id)\<close> it made, as (sender, text,
  page).
\<close>

record merge_outcome =
  queue_after :: messages_queue
  handed_over :: "handler_call list"

text \<open>
  Lines 308 to 342: the loop over the whole queue that hands over the first entry holding
  exactly one message. It deletes from the dict it iterates, so the iteration stops with
  a \<open>RuntimeError\<close> right after the first deletion; the error is caught at line 347.
\<close>

fun single_message_pass :: "messages_queue \<Rightarrow> string \<Rightarrow> messages_queue \<Rightarrow> merge_outcome" where
  "single_message_pass q page_id [] = \<lparr>queue_after = q, handed_over = []\<rparr>"
| "single_message_pass q page_id ((k, e) # rest) =
     (case user_messages_queue e of
        [user_msg] \<Rightarrow>
          \<lparr>queue_after = delete_key k q,
           handed_over = (if user_msg \<noteq> [] then [(k, user_msg, page_id)] else [])\<rparr>
      | _ \<Rightarrow> single_message_pass q page_id rest)"

definition merge_user_messages ::
  "string \<Rightarrow> clock \<Rightarrow> messages_queue \<Rightarrow> string \<Rightarrow> received_message \<Rightarrow> page_arg \<Rightarrow> rat \<Rightarrow> nat
   \<Rightarrow> merge_outcome" where
  "merge_user_messages config_PAGE_ID clk q senderPSID received page max_time max_messages =
     (let page_id = map_instagram (case page of PageId p \<Rightarrow> p | PageConfigObject \<Rightarrow> config_PAGE_ID);
          current_unix_time = \<lfloor>t_entry clk\<rfloor>
      in case text_of received of
           None \<Rightarrow> \<lparr>queue_after = q, handed_over = []\<rparr>
         | Some txt \<Rightarrow>
             (let q1 = enqueue q senderPSID page_id current_unix_time txt;
                  msgs = queued_messages q1 senderPSID
              in if length msgs \<ge> max_messages
                    \<or> t_first_check clk - of_int current_unix_time \<ge> max_time
                 then (let merged = join_space msgs
                       in \<lparr>queue_after = delete_key senderPSID q1,
                           handed_over = (if merged \<noteq> [] then [(senderPSID, merged, page_id)]
                                          else [])\<rparr>)
                 else if length msgs < max_messages
                         \<and> t_second_check clk - of_int current_unix_time \<ge> max_time
                 then single_message_pass q1 page_id q1
                 else \<lparr>queue_after = q1, handed_over = []\<rparr>))"

text \<open>
  One pass of the background loop \<open>process_message_queue_after_delay\<close>: collect the
  entries with exactly one message that are at least 2 seconds old, hand each to the
  handler, and delete the entry when the handler returned (\<open>handler_ok\<close>); when the
  handler raised, the loop continues and the entry stays.
\<close>

definition due_for_sweep :: "int \<Rightarrow> string \<times> batch_entry \<Rightarrow> bool" where
  "due_for_sweep current_time ke =
     (case user_messages_queue (snd ke) of
        [m] \<Rightarrow> current_time - first_message_time (snd ke) \<ge> 2
      | _ \<Rightarrow> False)"

fun sweep_users :: "(string \<Rightarrow> bool) \<Rightarrow> (string \<times> batch_entry) list \<Rightarrow> messages_queue \<Rightarrow> messages_queue" where
  "sweep_users handler_ok [] q = q"
| "sweep_users handler_ok ((k, e) # rest) q =
     sweep_users handler_ok rest (if handler_ok k then delete_key k q else q)"

definition process_message_queue_pass ::
  "rat \<Rightarrow> (string \<Rightarrow> bool) \<Rightarrow> messages_queue \<Rightarrow> messages_queue \<times> handler_call list" where
  "process_message_queue_pass now handler_ok q =
     (let users_to_analyze = filter (due_for_sweep \<lfloor>now\<rfloor>) q
      in (sweep_users handler_ok users_to_analyze q,
          map (\<lambda>(k, e). (k, concat (take 1 (user_messages_queue e)), map_instagram (entry_page_id e)))
              users_to_analyze))"



section \<open>The should-respond gate\<close>

text \<open>
  A message of a conversation as the Graph API returns it: the id under \<open>from\<close> (absent
  when the key is missing) and the text under \<open>message\<close>.
\<close>

record fb_message =
  from_id :: "string option"
  message :: string

text \<open>
  \<open>greeting.strip() == ""\<close>: every character is white space. Strings are byte lists
  here, so this covers the ASCII white space that \<open>str.strip\<close> removes.
\<close>

definition is_space :: "char \<Rightarrow> bool" where
  "is_space c = (c \<in> set [CHR '' '', CHR 0x09, CHR 0x0A, CHR 0x0B, CHR 0x0C, CHR 0x0D,
                            CHR 0x1C, CHR 0x1D, CHR 0x1E, CHR 0x1F])"

definition empty_greeting :: "string option \<Rightarrow> bool" where
  "empty_greeting greeting =
     (case greeting of None \<Rightarrow> True | Some g \<Rightarrow> g = [] \<or> list_all is_space g)"

text \<open>\<open>xs[-4:] if len(xs) > 4 else xs\<close>\<close>

definition last_four :: "'a list \<Rightarrow> 'a list" where
  "last_four xs = (if length xs > 4 then drop (length xs - 4) xs else xs)"

text \<open>
  What \<open>check_greeting_message\<close> reads from outside: the configured greeting, the
  conversation id of the user (the lookup is a network call and may raise), the messages
  of the conversation, and \<open>unicodedata.normalize('NFC', _)\<close>.
\<close>

record gate_env =
  dynamic_greeting :: "string \<Rightarrow> string option"
  conversation_id_for_user :: "string \<Rightarrow> string \<Rightarrow> py_error + string option"
  messages_for_conversation :: "string \<Rightarrow> string \<Rightarrow> fb_message list"
  nfc :: "string \<Rightarrow> string"

definition contains_greeting :: "(string \<Rightarrow> string) \<Rightarrow> string \<Rightarrow> string \<Rightarrow> bool" where
  "contains_greeting nfc_form greeting message_text =
     (sublist greeting message_text \<or> sublist (nfc_form greeting) (nfc_form message_text))"

text \<open>
  \<open>assistant_handler.check_greeting_message\<close>. Its result is inverted: \<open>False\<close> means
  the bot should respond, \<open>True\<close> that it should not.
\<close>

definition check_greeting_message :: "gate_env \<Rightarrow> string \<Rightarrow> string \<Rightarrow> py_error + bool" where
  "check_greeting_message env senderPSID page_id =
     (let greeting = dynamic_greeting env page_id
      in if empty_greeting greeting then Inr False
         else case conversation_id_for_user env senderPSID page_id of
                Inl e \<Rightarrow> Inl e
              | Inr None \<Rightarrow> Inr False
              | Inr (Some conversation_id) \<Rightarrow>
                  if conversation_id = [] then Inr False
                  else
                    (let all_messages = messages_for_conversation env conversation_id page_id;
                         bot_messages = filter (\<lambda>msg. from_id msg = Some page_id) all_messages;
                         last_bot_messages = last_four bot_messages
                     in Inr (\<not> list_ex (\<lambda>msg. contains_greeting (nfc env) (the greeting) (message msg))
                                        last_bot_messages)))"

text \<open>
  The values that reach \<open>greeting_checker.should_bot_respond\<close> as \<open>api_messages\<close>.
  \<open>get_messages_from_facebook_api\<close> is declared \<open>async def\<close> with three required
  parameters and \<open>should_bot_respond\<close> is a plain \<open>def\<close> that calls it without
  \<open>await\<close>: a call with three arguments yields a coroutine object without running the
  body, a call with two arguments raises \<open>TypeError\<close>.
\<close>

datatype api_value = Coroutine | MessageList "fb_message list"

definition get_messages_from_facebook_api :: "nat \<Rightarrow> py_error + api_value" where
  "get_messages_from_facebook_api number_of_arguments =
     (if number_of_arguments = 3 then Inr Coroutine else Inl TypeError)"

fun truthy_api :: "api_value \<Rightarrow> bool" where
  "truthy_api Coroutine = True"
| "truthy_api (MessageList ms) = (ms \<noteq> [])"

fun len_api :: "api_value \<Rightarrow> py_error + nat" where
  "len_api Coroutine = Inl TypeError"
| "len_api (MessageList ms) = Inr (length ms)"

fun iter_api :: "api_value \<Rightarrow> py_error + fb_message list" where
  "iter_api Coroutine = Inl TypeError"
| "iter_api (MessageList ms) = Inr ms"

text \<open>
  The results of the SQL queries of \<open>should_bot_respond\<close>, in the order the function
  runs them; \<open>connection\<close> is false when \<open>get_db_connection\<close> returns \<open>None\<close>.
\<close>

record greeting_db =
  connection :: bool
  conversation_row :: "nat option"
  joined_bot_messages :: "string list"
  candidate_conversation_ids :: "nat list"
  bot_messages_of_candidates :: "string list"
  test_case_messages :: "string list"
  recent_bot_messages :: "string list"

text \<open>Lines 113 to 128, 302 to 318 and 397 to 406: the loop over the API messages.\<close>

definition greeting_in_api_messages :: "string \<Rightarrow> api_value \<Rightarrow> py_error + bool" where
  "greeting_in_api_messages greeting_message api_messages =
     (case iter_api api_messages of
        Inl e \<Rightarrow> Inl e
      | Inr ms \<Rightarrow> Inr (list_ex (\<lambda>m. sublist greeting_message (message m)) ms))"

text \<open>Lines 154 to 329: no conversation row for the sender and page.\<close>

definition no_conversation_fallback ::
  "greeting_db \<Rightarrow> string \<Rightarrow> string \<Rightarrow> py_error + bool" where
  "no_conversation_fallback db sender_id greeting_message =
     (let bot_messages1 = joined_bot_messages db;
          bot_messages2 = (if bot_messages1 = [] \<and> candidate_conversation_ids db \<noteq> []
                           then bot_messages_of_candidates db else bot_messages1);
          bot_messages = (if bot_messages2 = []
                          then (if sublist ''test_greeting_with_message'' sender_id
                                then test_case_messages db else [])
                          else bot_messages2)
      in if list_ex (sublist greeting_message) bot_messages then Inr True
         else case get_messages_from_facebook_api 2 of
                Inl e \<Rightarrow> Inl e
              | Inr api_messages \<Rightarrow>
                  if truthy_api api_messages
                  then (case len_api api_messages of
                          Inl e \<Rightarrow> Inl e
                        | Inr n \<Rightarrow>
                            (case greeting_in_api_messages greeting_message api_messages of
                               Inl e \<Rightarrow> Inl e
                             | Inr found \<Rightarrow> Inr True))
                  else Inr True)"

text \<open>Lines 88 to 378: the body of the outer \<open>try\<close>.\<close>

definition should_bot_respond_body ::
  "(string \<Rightarrow> string option) \<Rightarrow> (string \<Rightarrow> string) \<Rightarrow> greeting_db \<Rightarrow> string \<Rightarrow> string
   \<Rightarrow> py_error + bool" where
  "should_bot_respond_body greeting_of nfc_form db sender_id page_id =
     (let greeting = greeting_of page_id
      in if empty_greeting greeting then Inr True
         else
           (let greeting_message = the greeting
            in case get_messages_from_facebook_api 3 of
                 Inl e \<Rightarrow> Inl e
               | Inr api_messages \<Rightarrow>
                   if truthy_api api_messages
                   then (case len_api api_messages of
                           Inl e \<Rightarrow> Inl e
                         | Inr n \<Rightarrow> greeting_in_api_messages greeting_message api_messages)
                   else if \<not> connection db then Inr True
                   else (case conversation_row db of
                           None \<Rightarrow> no_conversation_fallback db sender_id greeting_message
                         | Some conversation_id \<Rightarrow>
                             Inr (list_ex (contains_greeting nfc_form greeting_message)
                                          (recent_bot_messages db)))))"

text \<open>
  Lines 384 to 413: the handler of the outer \<open>try\<close>. Its emergency lookup calls
  \<open>get_messages_from_facebook_api\<close> with two arguments inside its own \<open>try\<close>; whatever
  happens there, the handler ends in \<open>return True\<close> unless the loop found the greeting,
  in which case it returns \<open>True\<close> as well.
\<close>

definition should_bot_respond_except :: "string option \<Rightarrow> bool" where
  "should_bot_respond_except greeting =
     (case get_messages_from_facebook_api 2 of
        Inl e \<Rightarrow> True
      | Inr api_messages \<Rightarrow>
          if truthy_api api_messages
          then (case greeting_in_api_messages (the greeting) api_messages of
                  Inl e \<Rightarrow> True
                | Inr found \<Rightarrow> True)
          else True)"

definition should_bot_respond ::
  "(string \<Rightarrow> string option) \<Rightarrow> (string \<Rightarrow> string) \<Rightarrow> greeting_db \<Rightarrow> string \<Rightarrow> string \<Rightarrow> bool" where
  "should_bot_respond greeting_of nfc_form db sender_id page_id =
     (case should_bot_respond_body greeting_of nfc_form db sender_id page_id of
        Inr answer \<Rightarrow> answer
      | Inl e \<Rightarrow> should_bot_respond_except (greeting_of page_id))"


section \<open>Conversation state\<close>

text \<open>
  The reply of \<open>get_chatgpt_response\<close> is always a dict \<open>{"text": ...}\<close>. An entry of
  \<open>messages_context\<close> is a dict with a role and a content; the content is a string, or
  whatever else was stored there, which in this code is a reply dict.
\<close>

datatype response = ResponseDict string

datatype entry_content = Text string | Reply response

record context_entry =
  role :: string
  content :: entry_content

datatype time_stamp = NoTime | UnixTime int | IsoTime string

text \<open>
  The per-user state dict, with the keys of the dict literals of
  \<open>assistant_handler.get_assistant_response\<close> (lines 242 to 255 and 265 to 279).
\<close>

record user_state_entry =
  page_id :: string
  message_count :: int
  label :: "string list"
  conversation :: "context_entry list"
  conversation_id :: "string option"
  new_user :: bool
  thread_id :: "string option"
  run_id :: "string option"
  messages_context :: "context_entry list"
  last_message_time :: time_stamp
  has_stop_message :: bool
  last_message :: string
  rank :: "int option"

text \<open>
  Python passes these dicts around untyped, and \<open>get_chatgpt_response\<close> indexes its
  \<open>user_state\<close> argument by sender id. The values that can stand there: the values of
  the fields, one per-user state dict, or a dict of per-user state dicts keyed by sender.
\<close>

datatype pyval =
    PyNone
  | PyBool bool
  | PyInt int
  | PyStr string
  | PyStrings "string list"
  | PyEntries "context_entry list"
  | PerUserState user_state_entry
  | StatesBySender "(string \<times> user_state_entry) list"

definition py_option :: "('a \<Rightarrow> pyval) \<Rightarrow> 'a option \<Rightarrow> pyval" where
  "py_option f x = (case x of None \<Rightarrow> PyNone | Some v \<Rightarrow> f v)"

definition py_time :: "time_stamp \<Rightarrow> pyval" where
  "py_time t = (case t of NoTime \<Rightarrow> PyNone | UnixTime n \<Rightarrow> PyInt n | IsoTime s \<Rightarrow> PyStr s)"

definition state_items :: "user_state_entry \<Rightarrow> (string \<times> pyval) list" where
  "state_items s =
     [(''page_id'', PyStr (page_id s)),
      (''message_count'', PyInt (message_count s)),
      (''label'', PyStrings (label s)),
      (''conversation'', PyEntries (conversation s)),
      (''conversation_id'', py_option PyStr (conversation_id s)),
      (''new_user'', PyBool (new_user s)),
      (''thread_id'', py_option PyStr (thread_id s)),
      (''run_id'', py_option PyStr (run_id s)),
      (''messages_context'', PyEntries (messages_context s)),
      (''last_message_time'', py_time (last_message_time s)),
      (''has_stop_message'', PyBool (has_stop_message s)),
      (''last_message'', PyStr (last_message s)),
      (''rank'', py_option PyInt (rank s))]"

text \<open>
  \<open>d[k]\<close> and \<open>d.get(k)\<close>. Only dicts have \<open>get\<close>; only dicts take a string key. (A
  dict loaded from the store has no key \<open>last_message_time\<close> until line 362 sets it,
  where \<open>state_items\<close> lists it with the value \<open>None\<close>; indexing by an absent key and
  calling \<open>get\<close> on \<open>None\<close> both raise, and both are caught by the same handler.)
\<close>

fun getitem :: "pyval \<Rightarrow> string \<Rightarrow> py_error + pyval" where
  "getitem (StatesBySender m) k =
     (case map_of m k of None \<Rightarrow> Inl KeyError | Some s \<Rightarrow> Inr (PerUserState s))"
| "getitem (PerUserState s) k =
     (case map_of (state_items s) k of None \<Rightarrow> Inl KeyError | Some v \<Rightarrow> Inr v)"
| "getitem _ k = Inl TypeError"

fun get_method :: "pyval \<Rightarrow> string \<Rightarrow> py_error + pyval" where
  "get_method (StatesBySender m) k =
     Inr (case map_of m k of None \<Rightarrow> PyNone | Some s \<Rightarrow> PerUserState s)"
| "get_method (PerUserState s) k =
     Inr (case map_of (state_items s) k of None \<Rightarrow> PyNone | Some v \<Rightarrow> v)"
| "get_method _ k = Inl AttributeError"

text \<open>
  The inner dict is mutated in place, so the outer dict holds the mutated one after the
  call.
\<close>

fun store_entry :: "pyval \<Rightarrow> string \<Rightarrow> user_state_entry \<Rightarrow> pyval" where
  "store_entry (StatesBySender m) k s =
     StatesBySender (map (\<lambda>(k', s'). if k' = k then (k', s) else (k', s')) m)"
| "store_entry v k s = v"

definition truthy_str :: "string option \<Rightarrow> bool" where
  "truthy_str x = (case x of None \<Rightarrow> False | Some s \<Rightarrow> s \<noteq> [])"

section \<open>The conversation store: \<open>db_persistence_fixed.py\<close>\<close>

text \<open>
  The table \<open>user_states\<close>: a row is the \<open>sender_id\<close> column and the columns that the
  state fills (\<open>page_id\<close> among them). Lists are stored as JSON text and read back with
  \<open>json.loads\<close>, which gives the same list.
\<close>

type_synonym user_states_table = "(string \<times> user_state_entry) list"

text \<open>
  Lines 34 to 143, once a connection was obtained: count the rows of the sender, stamp
  the state dict (the caller's dict, mutated in place), and update or insert. The rank
  is read from the key \<open>'Rank'\<close>, which none of the state dicts has, so the column is
  written as NULL.
\<close>

definition save_with_connection ::
  "string \<Rightarrow> user_states_table \<Rightarrow> string \<Rightarrow> user_state_entry \<Rightarrow> user_states_table \<times> user_state_entry" where
  "save_with_connection current_time table sender_id state =
     (let user_exists = (length (filter (\<lambda>(sid, st). sid = sender_id) table) > 0);
          state1 = state\<lparr>last_message_time := IsoTime current_time\<rparr>;
          columns = state1\<lparr>rank := None\<rparr>
      in (if user_exists
          then map (\<lambda>(sid, st). if sid = sender_id then (sid, columns) else (sid, st)) table
          else table @ [(sender_id, columns)],
          state1))"

text \<open>
  \<open>save_user_state_to_db\<close>, which \<open>assistant_handler\<close> imports under this name from
  \<open>db_persistence\<close> and which the repository defines in \<open>db_persistence_fixed.py\<close>: up to
  three attempts; \<open>has_connection n\<close> tells whether attempt
  \<open>n\<close> gets a connection. Without one the attempt raises before it touches anything.
\<close>

definition save_user_state_to_db ::
  "(nat \<Rightarrow> bool) \<Rightarrow> string \<Rightarrow> user_states_table \<Rightarrow> string \<Rightarrow> user_state_entry
   \<Rightarrow> bool \<times> user_states_table \<times> user_state_entry" where
  "save_user_state_to_db has_connection current_time table sender_id state =
     (if has_connection 0 \<or> has_connection 1 \<or> has_connection 2
      then (True, save_with_connection current_time table sender_id state)
      else (False, table, state))"

text \<open>The query of lines 216 to 223: the row of this sender on this page.\<close>

definition select_user_row ::
  "user_states_table \<Rightarrow> string \<Rightarrow> string \<Rightarrow> (string \<times> user_state_entry) option" where
  "select_user_row table sender pid = find (\<lambda>(sid, st). sid = sender \<and> page_id st = pid) table"


section \<open>The AI session manager: \<open>handeling_User.py\<close>\<close>

text \<open>The three fixed Arabic texts of the module, as their UTF-8 bytes.\<close>

definition error_message :: string where
  "error_message =
    [CHR 0xD8, CHR 0xB9, CHR 0xD8, CHR 0xB0, CHR 0xD8, CHR 0xB1, CHR 0xD8, CHR 0xA7,
     CHR 0xD9, CHR 0x8B, CHR 0xD8, CHR 0x8C, CHR 0x20, CHR 0xD8, CHR 0xAD, CHR 0xD8,
     CHR 0xAF, CHR 0xD8, CHR 0xAB, CHR 0x20, CHR 0xD8, CHR 0xAE, CHR 0xD8, CHR 0xB7,
     CHR 0xD8, CHR 0xA3, CHR 0x20, CHR 0xD9, CHR 0x81, CHR 0xD9, CHR 0x8A, CHR 0x20,
     CHR 0xD9, CHR 0x85, CHR 0xD8, CHR 0xB9, CHR 0xD8, CHR 0xA7, CHR 0xD9, CHR 0x84,
     CHR 0xD8, CHR 0xAC, CHR 0xD8, CHR 0xA9, CHR 0x20, CHR 0xD8, CHR 0xB1, CHR 0xD8,
     CHR 0xB3, CHR 0xD8, CHR 0xA7, CHR 0xD9, CHR 0x84, CHR 0xD8, CHR 0xAA, CHR 0xD9,
     CHR 0x83, CHR 0x2E, CHR 0x20, CHR 0xD9, CHR 0x8A, CHR 0xD8, CHR 0xB1, CHR 0xD8,
     CHR 0xAC, CHR 0xD9, CHR 0x89, CHR 0x20, CHR 0xD8, CHR 0xA7, CHR 0xD9, CHR 0x84,
     CHR 0xD9, CHR 0x85, CHR 0xD8, CHR 0xAD, CHR 0xD8, CHR 0xA7, CHR 0xD9, CHR 0x88,
     CHR 0xD9, CHR 0x84, CHR 0xD8, CHR 0xA9, CHR 0x20, CHR 0xD9, CHR 0x85, CHR 0xD8,
     CHR 0xB1, CHR 0xD8, CHR 0xA9, CHR 0x20, CHR 0xD8, CHR 0xA3, CHR 0xD8, CHR 0xAE,
     CHR 0xD8, CHR 0xB1, CHR 0xD9, CHR 0x89, CHR 0x2E]"

definition default_welcome_message :: string where
  "default_welcome_message =
    [CHR 0xD8, CHR 0xA3, CHR 0xD9, CHR 0x87, CHR 0xD9, CHR 0x84, CHR 0xD8, CHR 0xA7,
     CHR 0xD9, CHR 0x8B, CHR 0x0A, CHR 0xD9, CHR 0x85, CHR 0xD8, CHR 0xA8, CHR 0xD8,
     CHR 0xB3, CHR 0xD9, CHR 0x88, CHR 0xD8, CHR 0xB7, CHR 0xD9, CHR 0x8A, CHR 0xD9,
     CHR 0x86, CHR 0x20, CHR 0xD8, CHR 0xA8, CHR 0xD8, CHR 0xAA, CHR 0xD9, CHR 0x88,
     CHR 0xD8, CHR 0xA7, CHR 0xD8, CHR 0xB5, CHR 0xD9, CHR 0x84, CHR 0xD9, CHR 0x83,
     CHR 0x20, CHR 0xD9, CHR 0x85, CHR 0xD8, CHR 0xB9, CHR 0xD8, CHR 0xA7, CHR 0xD9,
     CHR 0x86, CHR 0xD8, CHR 0xA7, CHR 0x20, CHR 0xF0, CHR 0x9F, CHR 0x98, CHR 0x8A,
     CHR 0x0A, CHR 0xD9, CHR 0x86, CHR 0xD8, CHR 0xAD, CHR 0xD8, CHR 0xA8, CHR 0x20,
     CHR 0xD8, CHR 0xAC, CHR 0xD8, CHR 0xAF, CHR 0xD9, CHR 0x8B, CHR 0xD8, CHR 0xA7,
     CHR 0x20, CHR 0xD9, CHR 0x86, CHR 0xD8, CHR 0xAD, CHR 0xD9, CHR 0x83, CHR 0xD9,
     CHR 0x89, CHR 0x20, CHR 0xD9, CHR 0x85, CHR 0xD8, CHR 0xB9, CHR 0xD9, CHR 0x83,
     CHR 0x20, CHR 0xD8, CHR 0xA3, CHR 0xD9, CHR 0x83, CHR 0xD8, CHR 0xAA, CHR 0xD8,
     CHR 0xB1]"

definition not_understood_message :: string where
  "not_understood_message =
    [CHR 0xD8, CHR 0xB9, CHR 0xD8, CHR 0xB0, CHR 0xD8, CHR 0xB1, CHR 0xD8, CHR 0xA7,
     CHR 0xD9, CHR 0x8B, CHR 0xD8, CHR 0x8C, CHR 0x20, CHR 0xD9, CHR 0x84, CHR 0xD9,
     CHR 0x85, CHR 0x20, CHR 0xD8, CHR 0xA3, CHR 0xD9, CHR 0x81, CHR 0xD9, CHR 0x87,
     CHR 0xD9, CHR 0x85, CHR 0x20, CHR 0xD8, CHR 0xB3, CHR 0xD8, CHR 0xA4, CHR 0xD8,
     CHR 0xA7, CHR 0xD9, CHR 0x84, CHR 0xD9, CHR 0x83, CHR 0x20, CHR 0xD8, CHR 0xAC,
     CHR 0xD9, CHR 0x8A, CHR 0xD8, CHR 0xAF, CHR 0xD8, CHR 0xA7, CHR 0x20, CHR 0xD8,
     CHR 0x8C, CHR 0x20, CHR 0xD8, CHR 0xA7, CHR 0xD8, CHR 0xB3, CHR 0xD8, CHR 0xA3,
     CHR 0xD9, CHR 0x84, CHR 0x20, CHR 0xD8, CHR 0xA8, CHR 0xD8, CHR 0xB7, CHR 0xD8,
     CHR 0xB1, CHR 0xD9, CHR 0x8A, CHR 0xD9, CHR 0x82, CHR 0xD8, CHR 0xA9, CHR 0x20,
     CHR 0xD8, CHR 0xA7, CHR 0xD8, CHR 0xAE, CHR 0xD8, CHR 0xB1, CHR 0xD9, CHR 0x89,
     CHR 0x20, CHR 0xD9, CHR 0x84, CHR 0xD8, CHR 0xA3, CHR 0xD9, CHR 0x81, CHR 0xD9,
     CHR 0x87, CHR 0xD9, CHR 0x85, CHR 0x20, CHR 0xD9, CHR 0x85, CHR 0xD8, CHR 0xA7,
     CHR 0x20, CHR 0xD8, CHR 0xAA, CHR 0xD9, CHR 0x82, CHR 0xD8, CHR 0xB5, CHR 0xD8,
     CHR 0xAF, CHR 0xD9, CHR 0x87]"

datatype run_status = Queued | InProgress | Completed | Failed | Cancelled | Expired | RequiresAction

definition is_active :: "run_status \<Rightarrow> bool" where
  "is_active st = (st = Queued \<or> st = InProgress)"

text \<open>The calls made on the OpenAI client, in order.\<close>

datatype ai_event =
    RetrieveAssistant string
  | CreateThread string
  | CreateMessage string string
  | ListRuns string
  | RetrieveRun string string
  | CreateRun string string
  | ListMessages string

text \<open>
  What the service answers during one call of \<open>get_chatgpt_response\<close>: the id of a
  thread it creates, the runs it lists, the run it creates, what each
  \<open>runs.retrieve\<close> returns together with the reading of \<open>time.time()\<close> that follows it,
  and the newest message of the thread (role, and text when the content is not empty).
\<close>

record ai_script =
  fresh_thread_id :: string
  listed_runs :: "(string \<times> run_status) list"
  wait_started_at :: rat
  active_run_polls :: "(run_status \<times> rat) list"
  new_run_id :: string
  new_run_status :: run_status
  new_run_created_at :: int
  run_started_at :: rat
  run_polls :: "(run_status \<times> rat) list"
  latest_message :: "(string \<times> string option) option"

record chat_env =
  assistant_id_of :: "string \<Rightarrow> string"
  config_greeting_of :: "string \<Rightarrow> string option"
  script :: ai_script

text \<open>
  An entry of \<open>main_simple.user_threads\<close>; the dict itself is \<open>None\<close> when the import
  of \<open>main_simple\<close> fails (\<open>has_global_threads = False\<close>).
\<close>

record thread_info =
  info_thread_id :: "string option"
  info_assistant_id :: string
  info_last_message :: "string option"

type_synonym user_threads = "(string \<Rightarrow> thread_info option) option"

text \<open>
  The polling loops: while the status is queued or in progress, retrieve the run and
  leave when the time limit is passed. The result is the last status and the number of
  retrievals; \<open>None\<close> when the observations run out with the run still active and no
  time-out, that is, when the loop does not end within them.
\<close>

fun poll_run :: "(rat \<Rightarrow> bool) \<Rightarrow> run_status \<Rightarrow> (run_status \<times> rat) list \<Rightarrow> (run_status \<times> nat) option" where
  "poll_run timed_out st [] = (if is_active st then None else Some (st, 0))"
| "poll_run timed_out st ((st', t) # rest) =
     (if \<not> is_active st then Some (st, 0)
      else if timed_out t then Some (st', 1)
      else map_option (\<lambda>(s, n). (s, Suc n)) (poll_run timed_out st' rest))"

definition read_reply :: "run_status \<Rightarrow> (string \<times> string option) option \<Rightarrow> string option" where
  "read_reply st latest =
     (if st = Completed
      then (case latest of
              Some (r, Some reply) \<Rightarrow> if r = ''assistant'' then Some reply else None
            | _ \<Rightarrow> None)
      else None)"

definition conversation_key :: "string \<Rightarrow> string \<Rightarrow> string" where
  "conversation_key senderPSID pid = senderPSID @ ''_'' @ pid"

type_synonym chat_result = "response \<times> user_state_entry \<times> user_threads \<times> ai_event list"

text \<open>Lines 42 to 73: which thread id the turn uses.\<close>

definition resolve_thread ::
  "user_threads \<Rightarrow> string \<Rightarrow> string \<Rightarrow> user_state_entry \<Rightarrow> user_state_entry \<times> user_threads" where
  "resolve_thread threads key assistant_id s =
     (let from_global =
            (case threads of
               None \<Rightarrow> None
             | Some m \<Rightarrow> (case m key of
                            None \<Rightarrow> None
                          | Some info \<Rightarrow> if truthy_str (info_thread_id info)
                                         then Some (info_thread_id info) else None));
          s1 = (case from_global of None \<Rightarrow> s | Some t \<Rightarrow> s\<lparr>thread_id := t\<rparr>);
          existing_thread_id = (case from_global of None \<Rightarrow> thread_id s | Some t \<Rightarrow> t)
      in if truthy_str existing_thread_id
         then (s1\<lparr>thread_id := existing_thread_id\<rparr>,
               map_option (\<lambda>m. m(key \<mapsto> \<lparr>info_thread_id = existing_thread_id,
                                          info_assistant_id = assistant_id,
                                          info_last_message = Some (last_message s1)\<rparr>)) threads)
         else (s1, threads))"

text \<open>
  \<open>user_threads[conversation_key]['last_message'] = assistant_response\<close>, done only
  when the global dict is available; a missing key raises.
\<close>

definition record_last_message :: "user_threads \<Rightarrow> string \<Rightarrow> string \<Rightarrow> py_error + user_threads" where
  "record_last_message threads key reply =
     (case threads of
        None \<Rightarrow> Inr None
      | Some m \<Rightarrow> (case m key of
                     None \<Rightarrow> Inl KeyError
                   | Some info \<Rightarrow> Inr (Some (m(key \<mapsto> info\<lparr>info_last_message := Some reply\<rparr>)))))"

text \<open>Lines 141 to 176 and 233 to 275: read the reply of the finished run.\<close>

definition finish_turn ::
  "bool \<Rightarrow> string \<Rightarrow> string \<Rightarrow> string \<Rightarrow> run_status \<Rightarrow> (string \<times> string option) option
   \<Rightarrow> user_state_entry \<Rightarrow> user_threads \<Rightarrow> ai_event list \<Rightarrow> chat_result" where
  "finish_turn compare_with_user key user_message tid st latest s threads lg =
     (let lg1 = (if st = Completed then lg @ [ListMessages tid] else lg)
      in case read_reply st latest of
           None \<Rightarrow> (ResponseDict error_message, s, threads, lg1)
         | Some assistant_response \<Rightarrow>
             (let s1 = s\<lparr>last_message := assistant_response\<rparr>
              in case record_last_message threads key assistant_response of
                   Inl e \<Rightarrow> (ResponseDict error_message, s1, threads, lg1)
                 | Inr threads1 \<Rightarrow>
                     (let s2 = s1\<lparr>messages_context := messages_context s1 @
                                   [\<lparr>role = ''assistant'', content = Text assistant_response\<rparr>]\<rparr>
                      in (if compare_with_user \<and> user_message = assistant_response
                          then ResponseDict not_understood_message
                          else ResponseDict assistant_response,
                          s2, threads1, lg1))))"

text \<open>Lines 76 to 176, case A: no thread yet.\<close>

definition new_thread_turn ::
  "chat_env \<Rightarrow> user_threads \<Rightarrow> ai_event list \<Rightarrow> string \<Rightarrow> user_state_entry \<Rightarrow> string \<Rightarrow> string
   \<Rightarrow> string \<Rightarrow> chat_result option" where
  "new_thread_turn env threads lg user_message s key pid assistant_id =
     (let sc = script env;
          user_thread_id = fresh_thread_id sc;
          s1 = s\<lparr>thread_id := Some user_thread_id\<rparr>;
          threads1 = map_option (\<lambda>m. m(key \<mapsto> \<lparr>info_thread_id = Some user_thread_id,
                                                  info_assistant_id = assistant_id,
                                                  info_last_message = None\<rparr>)) threads;
          welcome_message = (case config_greeting_of env pid of
                               None \<Rightarrow> default_welcome_message
                             | Some g \<Rightarrow> if g \<noteq> [] then g else default_welcome_message);
          s2 = s1\<lparr>messages_context := messages_context s1 @
                     [\<lparr>role = ''assistant'', content = Text welcome_message\<rparr>]\<rparr>;
          s3 = s2\<lparr>messages_context := messages_context s2 @
                     [\<lparr>role = ''user'', content = Text user_message\<rparr>]\<rparr>;
          lg1 = lg @ [CreateThread user_thread_id, CreateMessage user_thread_id user_message,
                      CreateRun user_thread_id (new_run_id sc)]
      in case poll_run (\<lambda>t. t - of_int (new_run_created_at sc) \<ge> 20)
                (new_run_status sc) (run_polls sc) of
           None \<Rightarrow> None
         | Some (st, n) \<Rightarrow>
             Some (finish_turn False key user_message user_thread_id st (latest_message sc) s3
                     threads1 (lg1 @ replicate n (RetrieveRun user_thread_id (new_run_id sc)))))"

text \<open>
  Lines 191 and 192: the first listed run that is queued or in progress. Lines 203 and
  228: more than 20 seconds since the given start.
\<close>

definition first_active_run :: "(string \<times> run_status) list \<Rightarrow> (string \<times> run_status) option" where
  "first_active_run runs = find (\<lambda>(rid, st). is_active st) runs"

definition limit_passed :: "rat \<Rightarrow> rat \<Rightarrow> bool" where
  "limit_passed start_time t = (t - start_time > 20)"

text \<open>Lines 178 to 275, case B: the state has a thread id.\<close>

definition existing_thread_turn ::
  "chat_env \<Rightarrow> user_threads \<Rightarrow> ai_event list \<Rightarrow> string \<Rightarrow> user_state_entry \<Rightarrow> string
   \<Rightarrow> chat_result option" where
  "existing_thread_turn env threads lg user_message s key =
     (let sc = script env;
          user_thread_id = the (thread_id s);
          s1 = s\<lparr>messages_context := messages_context s @
                    [\<lparr>role = ''user'', content = Text user_message\<rparr>]\<rparr>;
          lg1 = lg @ [ListRuns user_thread_id];
          waited = (case first_active_run (listed_runs sc) of
                      None \<Rightarrow> Some []
                    | Some (rid, st) \<Rightarrow>
                        map_option (\<lambda>(st', n). replicate n (RetrieveRun user_thread_id rid))
                          (poll_run (limit_passed (wait_started_at sc)) st (active_run_polls sc)))
      in case waited of
           None \<Rightarrow> None
         | Some retrievals \<Rightarrow>
             (let lg2 = lg1 @ retrievals @ [CreateMessage user_thread_id user_message,
                                             CreateRun user_thread_id (new_run_id sc)]
              in case poll_run (limit_passed (run_started_at sc))
                        (new_run_status sc) (run_polls sc) of
                   None \<Rightarrow> None
                 | Some (st, n) \<Rightarrow>
                     Some (finish_turn True key user_message user_thread_id st (latest_message sc)
                             s1 threads
                             (lg2 @ replicate n (RetrieveRun user_thread_id (new_run_id sc))))))"

text \<open>Lines 38 to 275, for the per-user dict \<open>user_state[senderPSID]\<close>.\<close>

definition chat_on_entry ::
  "chat_env \<Rightarrow> user_threads \<Rightarrow> ai_event list \<Rightarrow> string \<Rightarrow> user_state_entry \<Rightarrow> string \<Rightarrow> string
   \<Rightarrow> chat_result option" where
  "chat_on_entry env threads lg user_message s senderPSID pid =
     (let assistant_id = assistant_id_of env pid;
          key = conversation_key senderPSID pid;
          (s1, threads1) = resolve_thread threads key assistant_id s
      in if thread_id s1 = None
         then new_thread_turn env threads1 lg user_message s1 key pid assistant_id
         else existing_thread_turn env threads1 lg user_message s1 key)"

text \<open>
  \<open>get_chatgpt_response(user_message, user_state, senderPSID, page_id)\<close>. The whole body
  is inside \<open>try\<close>, and the handler returns the fixed error reply. The first statement
  that touches the argument is \<open>user_state[senderPSID].get("thread_id")\<close>.
\<close>

definition get_chatgpt_response ::
  "chat_env \<Rightarrow> user_threads \<Rightarrow> ai_event list \<Rightarrow> string \<Rightarrow> pyval \<Rightarrow> string \<Rightarrow> string
   \<Rightarrow> (response \<times> pyval \<times> user_threads \<times> ai_event list) option" where
  "get_chatgpt_response env threads lg user_message user_state senderPSID pid =
     (let lg1 = lg @ [RetrieveAssistant (assistant_id_of env pid)];
          failed = Some (ResponseDict error_message, user_state, threads, lg1)
      in case getitem user_state senderPSID of
           Inl e \<Rightarrow> failed
         | Inr entry \<Rightarrow>
             (case get_method entry ''thread_id'' of
                Inl e \<Rightarrow> failed
              | Inr existing_thread_id \<Rightarrow>
                  (case entry of
                     PerUserState s \<Rightarrow>
                       map_option (\<lambda>(r, s', threads', lg'). (r, store_entry user_state senderPSID s', threads', lg'))
                         (chat_on_entry env threads lg1 user_message s senderPSID pid)
                   | _ \<Rightarrow> failed)))"


section \<open>The turn processor: \<open>assistant_handler.get_assistant_response\<close>\<close>

text \<open>
  The module-level state of the process (\<open>processed_message_ids\<close>, \<open>user_state\<close>,
  \<open>main_simple.user_threads\<close>), the table of the store, and what the handler did to
  the outside: the messages given to \<open>callSendAPI\<close> and the calls on the AI client.
  \<open>processed_message_ids\<close> is a set; it is kept as a list without repetitions, whose
  order no definition below relies on.
\<close>

record world =
  processed_message_ids :: "string list"
  user_state :: "string \<Rightarrow> user_state_entry option"
  user_states :: user_states_table
  user_threads :: user_threads
  sent :: "(string \<times> string \<times> string) list"
  ai_calls :: "ai_event list"

text \<open>
  What one call reads from outside. \<open>pop_index\<close> stands for the element that
  \<open>set.pop()\<close> happens to remove; \<open>send_error\<close> is the exception \<open>callSendAPI\<close>
  re-raises when the HTTP call fails.
\<close>

record handler_env =
  gate :: gate_env
  chat :: chat_env
  max_messages_of :: "string \<Rightarrow> int"
  end_message_of :: "string \<Rightarrow> string option"
  str_of_page_object :: string
  db_connection :: bool
  db_save_connection :: "nat \<Rightarrow> bool"
  send_error :: "py_error option"
  pop_index :: "string list \<Rightarrow> nat"
  sentiment_rank :: "int option"
  unix_now :: int
  iso_now :: string

datatype handler_result =
    DuplicateMessage
  | EndOfConversation
  | AssistantReply response
  | PlainReply string

definition default_end_message :: string where
  "default_end_message =
     ''Thank you for chatting with us today. We've reached the end of our conversation.''"

definition attachment_reply :: string where
  "attachment_reply =
     ''I've received your attachment. If you have any specific questions about it, please let me know.''"

definition fallback_reply :: string where
  "fallback_reply = ''I didn't understand your message. Please try sending a text message.''"

text \<open>Lines 186 to 202. \<open>set.pop()\<close> on an empty set raises \<open>KeyError\<close>, which ends the loop.\<close>

definition pop_one :: "(string list \<Rightarrow> nat) \<Rightarrow> string list \<Rightarrow> string list" where
  "pop_one pick ids = (let i = pick ids mod length ids in take i ids @ drop (Suc i) ids)"

fun pop_many :: "(string list \<Rightarrow> nat) \<Rightarrow> nat \<Rightarrow> string list \<Rightarrow> string list" where
  "pop_many pick 0 ids = ids"
| "pop_many pick (Suc n) ids =
     (if ids = [] then ids else pop_many pick n (pop_one pick ids))"

text \<open>\<open>None\<close>: the message id was seen before. Otherwise the new set.\<close>

definition mark_processed :: "(string list \<Rightarrow> nat) \<Rightarrow> string list \<Rightarrow> string option \<Rightarrow> string list option" where
  "mark_processed pick ids message_id =
     (if truthy_str message_id
      then (if the message_id \<in> set ids then None
            else (let ids1 = ids @ [the message_id]
                  in Some (if length ids1 > 1000 then pop_many pick 100 ids1 else ids1)))
      else Some ids)"

definition callSendAPI :: "handler_env \<Rightarrow> world \<Rightarrow> string \<Rightarrow> string \<Rightarrow> string \<Rightarrow> py_error + world" where
  "callSendAPI env w senderPsid message_text pid =
     (case send_error env of
        Some e \<Rightarrow> Inl e
      | None \<Rightarrow> Inr (w\<lparr>sent := sent w @ [(senderPsid, message_text, pid)]\<rparr>))"

definition fresh_state :: "string \<Rightarrow> string \<Rightarrow> user_state_entry" where
  "fresh_state pid user_message =
     \<lparr>page_id = pid, message_count = 1, label = [], conversation = [], conversation_id = None,
      new_user = True, thread_id = None, run_id = None, messages_context = [],
      last_message_time = NoTime, has_stop_message = False, last_message = user_message,
      rank = None\<rparr>"

text \<open>
  Lines 207 to 310. With a connection, the row of (sender, page) becomes the state of
  the sender; without a row, the gate is asked and a fresh state is made. The answer of
  the gate is bound to \<open>greeting_response\<close> and not read again. When there is no
  connection or the gate raises, the state already in memory is kept, or a fresh one is
  made.
\<close>

definition load_user_state :: "handler_env \<Rightarrow> world \<Rightarrow> string \<Rightarrow> string \<Rightarrow> string \<Rightarrow> world" where
  "load_user_state env w senderPSID pid user_message =
     (let from_store =
            (if db_connection env
             then (case select_user_row (user_states w) senderPSID pid of
                     Some (sid, st) \<Rightarrow> Some (st\<lparr>page_id := pid, last_message_time := NoTime\<rparr>)
                   | None \<Rightarrow>
                       (case check_greeting_message (gate env) senderPSID pid of
                          Inl e \<Rightarrow> None
                        | Inr greeting_response \<Rightarrow> Some (fresh_state pid user_message)))
             else None)
      in case from_store of
           Some st \<Rightarrow> w\<lparr>user_state := (user_state w)(senderPSID \<mapsto> st)\<rparr>
         | None \<Rightarrow>
             if user_state w senderPSID = None
             then w\<lparr>user_state := (user_state w)(senderPSID \<mapsto> fresh_state pid user_message)\<rparr>
             else w)"

text \<open>Lines 312 to 319.\<close>

definition count_turn :: "string \<Rightarrow> user_state_entry \<Rightarrow> user_state_entry" where
  "count_turn user_message s =
     (let s1 = s\<lparr>message_count := message_count s + 1, last_message := user_message\<rparr>
      in if has_stop_message s1 then s1\<lparr>has_stop_message := False\<rparr> else s1)"

definition save_state :: "handler_env \<Rightarrow> world \<Rightarrow> string \<Rightarrow> user_state_entry \<Rightarrow> world" where
  "save_state env w senderPSID s =
     (case save_user_state_to_db (db_save_connection env) (iso_now env) (user_states w) senderPSID s of
        (ok, table, s') \<Rightarrow> w\<lparr>user_state := (user_state w)(senderPSID \<mapsto> s'), user_states := table\<rparr>)"

text \<open>Lines 321 to 339.\<close>

definition end_conversation ::
  "handler_env \<Rightarrow> world \<Rightarrow> string \<Rightarrow> string \<Rightarrow> user_state_entry \<Rightarrow> (py_error + handler_result) \<times> world" where
  "end_conversation env w senderPSID pid s =
     (let end_message = (case end_message_of env pid of
                           None \<Rightarrow> default_end_message
                         | Some m \<Rightarrow> if m = [] then default_end_message else m)
      in case callSendAPI env (w\<lparr>user_state := (user_state w)(senderPSID \<mapsto> s)\<rparr>)
                senderPSID end_message pid of
           Inl e \<Rightarrow> (Inl e, w\<lparr>user_state := (user_state w)(senderPSID \<mapsto> s)\<rparr>)
         | Inr w1 \<Rightarrow>
             (Inr EndOfConversation,
              save_state env w1 senderPSID (s\<lparr>message_count := 0, has_stop_message := True\<rparr>)))"

text \<open>Lines 341 to 393.\<close>

definition answer_turn ::
  "handler_env \<Rightarrow> world \<Rightarrow> string \<Rightarrow> string \<Rightarrow> string \<Rightarrow> user_state_entry
   \<Rightarrow> ((py_error + handler_result) \<times> world) option" where
  "answer_turn env w senderPSID pid user_message s =
     (case get_chatgpt_response (chat env) (user_threads w) (ai_calls w) user_message
             (PerUserState s) senderPSID pid of
        None \<Rightarrow> None
      | Some (response, dict_after, threads, lg) \<Rightarrow>
          (let s1 = (case dict_after of PerUserState t \<Rightarrow> t | _ \<Rightarrow> s);
               s2 = s1\<lparr>messages_context := messages_context s1 @
                          [\<lparr>role = ''user'', content = Text user_message\<rparr>,
                           \<lparr>role = ''assistant'', content = Reply response\<rparr>],
                        last_message_time := UnixTime (unix_now env)\<rparr>;
               s3 = (case sentiment_rank env of None \<Rightarrow> s2 | Some r \<Rightarrow> s2\<lparr>rank := Some r\<rparr>);
               w1 = w\<lparr>user_threads := threads, ai_calls := lg\<rparr>
           in Some (Inr (AssistantReply response), save_state env w1 senderPSID s3)))"

text \<open>
  The state that line 323 compares with the configured maximum: the state loaded or made
  for this turn, after the turn was counted.
\<close>

definition state_at_limit_check ::
  "handler_env \<Rightarrow> world \<Rightarrow> string \<Rightarrow> string \<Rightarrow> string \<Rightarrow> user_state_entry" where
  "state_at_limit_check env w senderPSID pid user_message =
     count_turn user_message (the (user_state (load_user_state env w senderPSID pid user_message) senderPSID))"

definition get_assistant_response ::
  "handler_env \<Rightarrow> world \<Rightarrow> string \<Rightarrow> received_message \<Rightarrow> page_arg
   \<Rightarrow> ((py_error + handler_result) \<times> world) option" where
  "get_assistant_response env w senderPSID Recieved_Message page =
     (let pid = map_instagram (case page of PageId p \<Rightarrow> p | PageConfigObject \<Rightarrow> str_of_page_object env)
      in case mark_processed (pop_index env) (processed_message_ids w) (mid Recieved_Message) of
           None \<Rightarrow> Some (Inr DuplicateMessage, w)
         | Some ids \<Rightarrow>
             (let w0 = w\<lparr>processed_message_ids := ids\<rparr>
              in case text_of Recieved_Message of
                   Some user_message \<Rightarrow>
                     (let w1 = load_user_state env w0 senderPSID pid user_message;
                          s = state_at_limit_check env w0 senderPSID pid user_message
                      in if message_count s > max_messages_of env pid
                         then Some (end_conversation env w1 senderPSID pid s)
                         else answer_turn env w1 senderPSID pid user_message s)
                 | None \<Rightarrow>
                     (let reply = (if has_attachments Recieved_Message then attachment_reply
                                   else fallback_reply)
                      in case callSendAPI env w0 senderPSID reply pid of
                           Inl e \<Rightarrow> Some (Inl e, w0)
                         | Inr w1 \<Rightarrow> Some (Inr (PlainReply reply), w1))))"

text \<open>What a call returned and what it left behind, when it returned.\<close>

definition returned :: "('a \<times> world) option \<Rightarrow> 'a option" where
  "returned outcome = map_option fst outcome"

definition world_after :: "('a \<times> world) option \<Rightarrow> world option" where
  "world_after outcome = map_option snd outcome"

definition state_after :: "('a \<times> world) option \<Rightarrow> string \<Rightarrow> user_state_entry option" where
  "state_after outcome senderPSID =
     (case outcome of None \<Rightarrow> None | Some (result, w) \<Rightarrow> user_state w senderPSID)"

section \<open>From the queue to the turn processor\<close>

text \<open>
  Both the flush of \<open>merge_user_messages\<close> (lines 305 and 306, 339 to 342) and the
  background loop (lines 385 to 395) build \<open>message_structure = {'text': ...}\<close> and call
  \<open>get_assistant_response(senderPSID, message_structure, page_id)\<close>: the message id of the
  webhook event is not passed on. The callers drop what the handler returns, and an
  exception of the handler is caught by their \<open>except\<close> clauses; the results are kept here
  to be looked at.
\<close>

definition message_structure :: "string \<Rightarrow> received_message" where
  "message_structure txt = \<lparr>mid = None, text_of = Some txt, has_attachments = False\<rparr>"

fun hand_to_handler ::
  "handler_env \<Rightarrow> world \<Rightarrow> handler_call list \<Rightarrow> ((py_error + handler_result) list \<times> world) option" where
  "hand_to_handler env w [] = Some ([], w)"
| "hand_to_handler env w ((senderPSID, txt, pid) # calls) =
     (case get_assistant_response env w senderPSID (message_structure txt) (PageId pid) of
        None \<Rightarrow> None
      | Some (result, w1) \<Rightarrow>
          (case hand_to_handler env w1 calls of
             None \<Rightarrow> None
           | Some (results, w2) \<Rightarrow> Some (result # results, w2)))"

section \<open>The context window of \<open>fast_message_handler.fast_process_message\<close>\<close>

text \<open>Lines 333 to 342: append the two entries of the turn, then keep the last 20.\<close>

definition fast_update_context ::
  "context_entry list \<Rightarrow> string \<Rightarrow> entry_content \<Rightarrow> context_entry list" where
  "fast_update_context ctx message_text ai_response =
     (let ctx1 = ctx @ [\<lparr>role = ''user'', content = Text message_text\<rparr>,
                        \<lparr>role = ''assistant'', content = ai_response\<rparr>]
      in if length ctx1 > 20 then drop (length ctx1 - 20) ctx1 else ctx1)"


section \<open>Restoration at start-up: \<open>main_simple.restore_user_states_from_database\<close>\<close>

text \<open>
  The rows with \<open>is_new_user = false OR message_count > 0\<close> are loaded into
  \<open>main_simple.user_state\<close>, keyed by sender id, and every row with a thread id is
  entered in \<open>main_simple.user_threads\<close> under the key \<open>sender_id+page_id\<close>.
\<close>

definition restore_key :: "string \<Rightarrow> string \<Rightarrow> string" where
  "restore_key sender_id pid = sender_id @ ''+'' @ pid"

definition restore_row ::
  "(string \<Rightarrow> string) \<Rightarrow> string \<times> user_state_entry
   \<Rightarrow> (string \<Rightarrow> user_state_entry option) \<times> (string \<Rightarrow> thread_info option)
   \<Rightarrow> (string \<Rightarrow> user_state_entry option) \<times> (string \<Rightarrow> thread_info option)" where
  "restore_row dynamic_assistant_id user_row globals =
     (case user_row of (sender_id, st) \<Rightarrow>
        (case globals of (states, threads) \<Rightarrow>
           ((states(sender_id \<mapsto> st\<lparr>last_message_time := NoTime\<rparr>)),
            (if truthy_str (thread_id st)
             then threads(restore_key sender_id (page_id st) \<mapsto>
                    \<lparr>info_thread_id = thread_id st,
                     info_assistant_id = dynamic_assistant_id (page_id st),
                     info_last_message = Some (last_message st)\<rparr>)
             else threads))))"

definition restore_user_states_from_database ::
  "(string \<Rightarrow> string) \<Rightarrow> user_states_table
   \<Rightarrow> (string \<Rightarrow> user_state_entry option) \<times> (string \<Rightarrow> thread_info option)" where
  "restore_user_states_from_database dynamic_assistant_id table =
     fold (restore_row dynamic_assistant_id)
       (filter (\<lambda>(sender_id, st). \<not> new_user st \<or> message_count st > 0) table)
       (Map.empty, Map.empty)"

section \<open>A concrete configuration\<close>

text \<open>
  A page \<open>p1\<close> with greeting \<open>hello\<close>, at most 10 messages per conversation and the end
  message \<open>goodbye\<close>; a conversation whose only page message is \<open>bye\<close>; a store and a
  send endpoint that work; an AI service whose run completes at the first poll with the
  reply \<open>welcome back\<close>.
\<close>

definition example_gate :: gate_env where
  "example_gate =
     \<lparr>dynamic_greeting = (\<lambda>pid. Some ''hello''),
      conversation_id_for_user = (\<lambda>sender pid. Inr (Some ''t_100'')),
      messages_for_conversation = (\<lambda>conversation pid. [\<lparr>from_id = Some ''p1'', message = ''bye''\<rparr>]),
      nfc = (\<lambda>x. x)\<rparr>"

definition example_script :: ai_script where
  "example_script =
     \<lparr>fresh_thread_id = ''thread_new'', listed_runs = [], wait_started_at = 0,
      active_run_polls = [], new_run_id = ''run_1'', new_run_status = Queued,
      new_run_created_at = 0, run_started_at = 0, run_polls = [(Completed, 1)],
      latest_message = Some (''assistant'', Some ''welcome back'')\<rparr>"

definition example_env :: handler_env where
  "example_env =
     \<lparr>gate = example_gate,
      chat = \<lparr>assistant_id_of = (\<lambda>pid. ''asst_1''), config_greeting_of = (\<lambda>pid. Some ''hello''),
              script = example_script\<rparr>,
      max_messages_of = (\<lambda>pid. 10),
      end_message_of = (\<lambda>pid. Some ''goodbye''),
      str_of_page_object = ''config'',
      db_connection = True,
      db_save_connection = (\<lambda>attempt. True),
      send_error = None,
      pop_index = (\<lambda>ids. 0),
      sentiment_rank = None,
      unix_now = 1700000000,
      iso_now = ''2023-11-14T22:13:20''\<rparr>"

definition example_world :: "string list \<Rightarrow> user_states_table \<Rightarrow> world" where
  "example_world ids table =
     \<lparr>processed_message_ids = ids, user_state = Map.empty, user_states = table,
      user_threads = None, sent = [], ai_calls = []\<rparr>"

definition text_message :: "string option \<Rightarrow> string \<Rightarrow> received_message" where
  "text_message message_id txt = \<lparr>mid = message_id, text_of = Some txt, has_attachments = False\<rparr>"

definition stored_state :: "string \<Rightarrow> string option \<Rightarrow> int \<Rightarrow> context_entry list \<Rightarrow> user_state_entry" where
  "stored_state pid thread n ctx =
     \<lparr>page_id = pid, message_count = n, label = [], conversation = [], conversation_id = None,
      new_user = False, thread_id = thread, run_id = None, messages_context = ctx,
      last_message_time = IsoTime ''2023-11-14T20:00:00'', has_stop_message = False,
      last_message = ''earlier'', rank = None\<rparr>"

definition example_greeting_db :: greeting_db where
  "example_greeting_db =
     \<lparr>connection = True, conversation_row = Some 1, joined_bot_messages = [],
      candidate_conversation_ids = [], bot_messages_of_candidates = [], test_case_messages = [],
      recent_bot_messages = [''bye'']\<rparr>"

definition restored_world :: "user_states_table \<Rightarrow> world" where
  "restored_world table =
     (example_world [] table)
       \<lparr>user_threads :=
          Some (snd (restore_user_states_from_database (assistant_id_of (chat example_env)) table))\<rparr>"

text \<open>A handler that always returns, for the background loop.\<close>

definition handler_returns :: "string \<Rightarrow> bool" where
  "handler_returns senderPSID = True"





definition twenty_entries :: "context_entry list" where
  "twenty_entries = replicate 20 \<lparr>role = ''user'', content = Text ''earlier''\<rparr>"

section \<open>Invariant of the batching queue\<close>


section \<open>Properties of the batching queue\<close>
















text \<open>
  The pass of lines 308 to 342 runs only when those 30 seconds do pass inside one call. It
  then hands over the first single-message batch of the queue, whoever its sender is.
\<close>

lemma late_pass_example:
  "merge_user_messages ''p0'' \<lparr>t_entry = 0, t_first_check = 0, t_second_check = 30\<rparr>
     [(''u0'', \<lparr>entry_page_id = ''p2'', user_messages_queue = [''hello''],
                first_message_time = 0\<rparr>)]
     ''u1'' (text_message (Some ''m1'') ''hi'') (PageId ''p1'') 30 2
   = \<lparr>queue_after = [(''u1'', \<lparr>entry_page_id = ''p1'', user_messages_queue = [''hi''],
                                first_message_time = 0\<rparr>)],
      handed_over = [(''u0'', ''hello'', ''p1'')]\<rparr>"
  by (simp add: merge_user_messages_def text_message_def enqueue_def queued_messages_def
      map_instagram_def instagram_page_id_def delete_key_def Let_def)

section \<open>The state dict handed to \<open>get_chatgpt_response\<close>\<close>

text \<open>
  Every caller in the repository passes the per-user dict itself as \<open>user_state\<close>
  (\<open>assistant_handler\<close> line 342, and the fast, stable, production and enterprise
  handlers). Indexed by a sender id, that dict either has no such key or holds a field
  value, and no field value is a dict: the first statement of the body raises, and the
  function returns the fixed error reply with the state, the threads and the service
  untouched but for the retrieval of the assistant.
\<close>

lemma flat_state_lookup:
  "getitem (PerUserState s) k = Inl KeyError
   \<or> (\<exists>v. getitem (PerUserState s) k = Inr v \<and> get_method v ''thread_id'' = Inl AttributeError)"
  by (simp add: state_items_def py_option_def py_time_def split: option.splits time_stamp.splits)

lemma get_chatgpt_response_flat:
  "get_chatgpt_response env threads lg user_message (PerUserState s) senderPSID pid =
     Some (ResponseDict error_message, PerUserState s, threads,
           lg @ [RetrieveAssistant (assistant_id_of env pid)])"
  using flat_state_lookup [of s senderPSID]
  by (auto simp: get_chatgpt_response_def Let_def)

lemma answer_turn_flat:
  "answer_turn env w senderPSID pid user_message s =
     Some (Inr (AssistantReply (ResponseDict error_message)),
           save_state env
             (w\<lparr>ai_calls := ai_calls w @ [RetrieveAssistant (assistant_id_of (chat env) pid)]\<rparr>)
             senderPSID
             (let s2 = s\<lparr>messages_context := messages_context s @
                          [\<lparr>role = ''user'', content = Text user_message\<rparr>,
                           \<lparr>role = ''assistant'', content = Reply (ResponseDict error_message)\<rparr>],
                        last_message_time := UnixTime (unix_now env)\<rparr>
              in case sentiment_rank env of None \<Rightarrow> s2 | Some r \<Rightarrow> s2\<lparr>rank := Some r\<rparr>))"
  by (cases "sentiment_rank env") (simp_all add: answer_turn_def get_chatgpt_response_flat Let_def)

section \<open>Properties of the set of processed message ids\<close>

lemma pop_index_in_range: "ids \<noteq> [] \<Longrightarrow> pick ids mod length ids < length ids"
  by simp

lemma length_pop_one:
  assumes "ids \<noteq> []"
  shows "length (pop_one pick ids) = length ids - 1"
proof -
  define i where "i = pick ids mod length ids"
  from assms have "i < length ids" by (simp add: i_def)
  then have "length (take i ids @ drop (Suc i) ids) = length ids - 1" by auto
  then show ?thesis by (simp add: pop_one_def Let_def i_def)
qed

lemma length_pop_many: "length (pop_many pick n ids) = length ids - n"
proof (induction n arbitrary: ids)
  case 0
  show ?case by simp
next
  case (Suc n)
  show ?case
  proof (cases "ids = []")
    case True
    then show ?thesis by simp
  next
    case False
    then show ?thesis by (simp add: Suc length_pop_one)
  qed
qed

lemma set_pop_one: "set (pop_one pick ids) \<subseteq> set ids"
  by (auto simp: pop_one_def Let_def dest: in_set_takeD in_set_dropD)

lemma set_pop_many: "set (pop_many pick n ids) \<subseteq> set ids"
proof (induction n arbitrary: ids)
  case 0
  show ?case by simp
next
  case (Suc n)
  have "set (pop_many pick n (pop_one pick ids)) \<subseteq> set (pop_one pick ids)" by (rule Suc)
  also have "\<dots> \<subseteq> set ids" by (rule set_pop_one)
  finally show ?case by simp
qed

lemma distinct_pop_one: "distinct ids \<Longrightarrow> distinct (pop_one pick ids)"
  by (auto simp: pop_one_def Let_def dest: in_set_takeD in_set_dropD
      simp: set_take_disj_set_drop_if_distinct)

lemma processed_load_user_state:
  "processed_message_ids (load_user_state env w senderPSID pid user_message) = processed_message_ids w"
  by (simp add: load_user_state_def Let_def split: option.splits sum.splits prod.splits)

lemma processed_save_state:
  "processed_message_ids (save_state env w senderPSID s) = processed_message_ids w"
  by (simp add: save_state_def split: prod.splits)

lemma processed_end_conversation:
  "processed_message_ids (snd (end_conversation env w senderPSID pid s)) = processed_message_ids w"
  by (simp add: end_conversation_def callSendAPI_def processed_save_state Let_def
      split: option.splits sum.splits)

lemma end_conversation_not_duplicate:
  "fst (end_conversation env w senderPSID pid s) \<noteq> Inr DuplicateMessage"
  by (simp add: end_conversation_def callSendAPI_def Let_def split: option.splits sum.splits)

lemma distinct_pop_many: "distinct ids \<Longrightarrow> distinct (pop_many pick n ids)"
  by (induction n arbitrary: ids) (simp_all add: distinct_pop_one)

lemma mark_processed_seen:
  "truthy_str (Some i) \<Longrightarrow> i \<in> set ids \<Longrightarrow> mark_processed pick ids (Some i) = None"
  by (simp add: mark_processed_def)

lemma mark_processed_new:
  assumes "i \<noteq> []" and "i \<notin> set ids" and "distinct ids"
  shows "\<exists>ids'. mark_processed pick ids (Some i) = Some ids'
           \<and> distinct ids' \<and> set ids' \<subseteq> insert i (set ids)
           \<and> length ids' = (if length ids + 1 > 1000 then length ids + 1 - 100 else length ids + 1)
           \<and> (length ids + 1 \<le> 1000 \<longrightarrow> ids' = ids @ [i])"
proof (cases "length ids + 1 > 1000")
  case True
  let ?ids' = "pop_many pick 100 (ids @ [i])"
  from True assms have m: "mark_processed pick ids (Some i) = Some ?ids'"
    by (simp add: mark_processed_def truthy_str_def Let_def)
  from assms have "distinct (ids @ [i])" by simp
  then have d: "distinct ?ids'" by (rule distinct_pop_many)
  have s: "set ?ids' \<subseteq> insert i (set ids)"
    using set_pop_many [of pick 100 "ids @ [i]"] by auto
  have l: "length ?ids' = length ids + 1 - 100" by (simp add: length_pop_many)
  from m d s l True show ?thesis by simp
next
  case False
  with assms show ?thesis by (simp add: mark_processed_def truthy_str_def Let_def)
qed

lemma handler_after_mark:
  assumes "mark_processed (pop_index env) (processed_message_ids w) (mid m) = Some ids"
  shows "\<exists>r w'. get_assistant_response env w senderPSID m page = Some (r, w')
           \<and> r \<noteq> Inr DuplicateMessage \<and> processed_message_ids w' = ids"
proof (cases "text_of m")
  case None
  with assms show ?thesis
    by (cases "send_error env")
       (simp_all add: get_assistant_response_def Let_def callSendAPI_def)
next
  case (Some user_message)
  let ?pid = "map_instagram (case page of PageId p \<Rightarrow> p | PageConfigObject \<Rightarrow> str_of_page_object env)"
  let ?w0 = "w\<lparr>processed_message_ids := ids\<rparr>"
  let ?w1 = "load_user_state env ?w0 senderPSID ?pid user_message"
  let ?s = "state_at_limit_check env ?w0 senderPSID ?pid user_message"
  have w1: "processed_message_ids ?w1 = ids" by (simp add: processed_load_user_state)
  show ?thesis
  proof (cases "message_count ?s > max_messages_of env ?pid")
    case True
    let ?e = "end_conversation env ?w1 senderPSID ?pid ?s"
    from True Some assms
    have "get_assistant_response env w senderPSID m page = Some (fst ?e, snd ?e)"
      by (simp add: get_assistant_response_def Let_def)
    moreover have "fst ?e \<noteq> Inr DuplicateMessage" by (rule end_conversation_not_duplicate)
    moreover have "processed_message_ids (snd ?e) = ids"
      by (simp add: processed_end_conversation w1)
    ultimately show ?thesis by blast
  next
    case False
    with Some assms show ?thesis
      by (simp add: get_assistant_response_def Let_def answer_turn_flat processed_save_state w1)
  qed
qed

text \<open>
  The check of lines 186 to 202 by itself, for a message dict that carries a non-empty
  \<open>mid\<close>: while the id is in the set of processed ids, the handler returns the duplicate
  indicator and leaves the whole state and the outside untouched; when the id is not in
  the set, the handler goes on, the id is recorded, and when the set thereby grows beyond
  1000 ids, exactly 100 of them are removed.
\<close>

lemma dedup_check_with_id:
  assumes "mid m = Some i" and "i \<noteq> []" and "distinct (processed_message_ids w)"
  shows "if i \<in> set (processed_message_ids w)
         then get_assistant_response env w senderPSID m page = Some (Inr DuplicateMessage, w)
         else (\<exists>r w'. get_assistant_response env w senderPSID m page = Some (r, w')
                 \<and> r \<noteq> Inr DuplicateMessage
                 \<and> distinct (processed_message_ids w')
                 \<and> set (processed_message_ids w') \<subseteq> insert i (set (processed_message_ids w))
                 \<and> length (processed_message_ids w') =
                     (if length (processed_message_ids w) + 1 > 1000
                      then length (processed_message_ids w) + 1 - 100
                      else length (processed_message_ids w) + 1)
                 \<and> (length (processed_message_ids w) + 1 \<le> 1000
                      \<longrightarrow> processed_message_ids w' = processed_message_ids w @ [i]))"
proof (cases "i \<in> set (processed_message_ids w)")
  case True
  with assms show ?thesis
    by (simp add: get_assistant_response_def Let_def mark_processed_def truthy_str_def)
next
  case False
  from mark_processed_new [OF assms(2) False assms(3), of "pop_index env"]
  obtain ids' where m: "mark_processed (pop_index env) (processed_message_ids w) (Some i) = Some ids'"
    and p: "distinct ids'" "set ids' \<subseteq> insert i (set (processed_message_ids w))"
      "length ids' = (if length (processed_message_ids w) + 1 > 1000
                      then length (processed_message_ids w) + 1 - 100
                      else length (processed_message_ids w) + 1)"
      "length (processed_message_ids w) + 1 \<le> 1000 \<longrightarrow> ids' = processed_message_ids w @ [i]"
    by blast
  from m assms(1)
  have "mark_processed (pop_index env) (processed_message_ids w) (mid m) = Some ids'" by simp
  from handler_after_mark [OF this]
  obtain r w' where "get_assistant_response env w senderPSID m page = Some (r, w')"
    and "r \<noteq> Inr DuplicateMessage" and "processed_message_ids w' = ids'"
    by blast
  with p False show ?thesis by auto
qed

lemma dedup_check_with_id_example:
  "mid (text_message (Some ''m1'') ''hi'') = Some ''m1'' \<and> ''m1'' \<noteq> []
   \<and> distinct (processed_message_ids (example_world [''m1''] []))
   \<and> ''m1'' \<in> set (processed_message_ids (example_world [''m1''] []))
   \<and> get_assistant_response example_env (example_world [''m1''] []) ''u1''
        (text_message (Some ''m1'') ''hi'') (PageId ''p1'')
      = Some (Inr DuplicateMessage, example_world [''m1''] [])"
proof -
  have a: "mid (text_message (Some ''m1'') ''hi'') = Some ''m1''" by (simp add: text_message_def)
  have b: "''m1'' \<noteq> []" by simp
  have c: "distinct (processed_message_ids (example_world [''m1''] []))"
    by (simp add: example_world_def)
  have d: "''m1'' \<in> set (processed_message_ids (example_world [''m1''] []))"
    by (simp add: example_world_def)
  from dedup_check_with_id [OF a b c, of example_env "''u1''" "PageId ''p1''"] d a b c
  show ?thesis by simp
qed

section \<open>Properties of the should-respond gate\<close>

text \<open>
  \<open>should_bot_respond\<close> never awaits \<open>get_messages_from_facebook_api\<close>: the coroutine
  object it gets is truthy, \<open>len\<close> of it raises, and the handler of the outer \<open>try\<close>
  returns \<open>True\<close>. So the function answers \<open>True\<close> for every page and conversation.
\<close>

lemma should_bot_respond_constant:
  "should_bot_respond greeting_of nfc_form db sender_id pid = True"
  by (simp add: should_bot_respond_def should_bot_respond_body_def should_bot_respond_except_def
      get_messages_from_facebook_api_def Let_def)

text \<open>
  Claim C1, at a failing input: the greeting \<open>hello\<close> is configured, the conversation
  exists and the only recent page message is \<open>bye\<close>, which does not contain the greeting
  raw or normalised; \<open>should_bot_respond\<close> answers \<open>True\<close> where the claim says false.
\<close>

theorem should_bot_respond_ignores_history:
  "\<not> empty_greeting (Some ''hello'')
   \<and> \<not> list_ex (contains_greeting (\<lambda>x. x) ''hello'') (recent_bot_messages example_greeting_db)
   \<and> should_bot_respond (\<lambda>pid. Some ''hello'') (\<lambda>x. x) example_greeting_db ''u1'' ''p1'' = True"
  by (simp add: should_bot_respond_def should_bot_respond_body_def should_bot_respond_except_def
      get_messages_from_facebook_api_def Let_def empty_greeting_def is_space_def
      example_greeting_db_def contains_greeting_def sublist_Cons_right prefix_Cons)

text \<open>
  On the same input the awaited sibling \<open>assistant_handler.check_greeting_message\<close> does
  find that the bot should stay silent (its \<open>True\<close>).
\<close>

lemma check_greeting_message_example:
  "check_greeting_message example_gate ''u1'' ''p1'' = Inr True"
  by (simp add: check_greeting_message_def example_gate_def Let_def empty_greeting_def
      is_space_def last_four_def contains_greeting_def sublist_Cons_right prefix_Cons)

section \<open>Properties of the conversation store\<close>

text \<open>
  Claim C8, at a failing input: the store holds the state of user \<open>u1\<close> on page \<open>p2\<close>;
  saving a state of \<open>u1\<close> on page \<open>p1\<close> counts and updates by \<open>sender_id\<close> alone, so the
  row of (\<open>u1\<close>, \<open>p2\<close>) is overwritten, and afterwards the query by sender and page finds no
  state for (\<open>u1\<close>, \<open>p2\<close>).
\<close>

theorem save_overwrites_other_page:
  "select_user_row [(''u1'', stored_state ''p2'' (Some ''thread_B'') 3 [])] ''u1'' ''p2''
     = Some (''u1'', stored_state ''p2'' (Some ''thread_B'') 3 [])
   \<and> fst (snd (save_user_state_to_db (\<lambda>attempt. True) ''2023-11-14T22:13:20''
                 [(''u1'', stored_state ''p2'' (Some ''thread_B'') 3 [])] ''u1''
                 (fresh_state ''p1'' ''hi'')))
     = [(''u1'', (fresh_state ''p1'' ''hi'')\<lparr>last_message_time := IsoTime ''2023-11-14T22:13:20''\<rparr>)]
   \<and> select_user_row
        (fst (snd (save_user_state_to_db (\<lambda>attempt. True) ''2023-11-14T22:13:20''
                     [(''u1'', stored_state ''p2'' (Some ''thread_B'') 3 [])] ''u1''
                     (fresh_state ''p1'' ''hi''))))
        ''u1'' ''p2'' = None"
  by (simp add: select_user_row_def save_user_state_to_db_def save_with_connection_def
      stored_state_def fresh_state_def Let_def)

section \<open>Properties of the turn processor\<close>

lemmas handler_defs =
  get_assistant_response_def mark_processed_def truthy_str_def load_user_state_def
  state_at_limit_check_def count_turn_def select_user_row_def check_greeting_message_def
  empty_greeting_def is_space_def last_four_def contains_greeting_def fresh_state_def
  end_conversation_def callSendAPI_def save_state_def save_user_state_to_db_def
  save_with_connection_def map_instagram_def instagram_page_id_def
  example_env_def example_gate_def example_world_def text_message_def stored_state_def

text \<open>
  Claim C2, at a failing input: a first message \<open>hi\<close> of user \<open>u1\<close> to page \<open>p1\<close>, for
  which the gate says that the bot should not respond. The handler binds the answer to
  \<open>greeting_response\<close> and goes on: the turn is counted, the AI client is called, two
  entries are appended to the context and the state is written to the store.
\<close>

theorem gate_result_is_ignored:
  "check_greeting_message (gate example_env) ''u1'' ''p1'' = Inr True
   \<and> get_assistant_response example_env (example_world [] []) ''u1'' (text_message None ''hi'')
        (PageId ''p1'')
     = Some (Inr (AssistantReply (ResponseDict error_message)),
         \<lparr>processed_message_ids = [],
          user_state = [''u1'' \<mapsto>
            \<lparr>page_id = ''p1'', message_count = 2, label = [], conversation = [],
             conversation_id = None, new_user = True, thread_id = None, run_id = None,
             messages_context = [\<lparr>role = ''user'', content = Text ''hi''\<rparr>,
                                 \<lparr>role = ''assistant'', content = Reply (ResponseDict error_message)\<rparr>],
             last_message_time = IsoTime ''2023-11-14T22:13:20'', has_stop_message = False,
             last_message = ''hi'', rank = None\<rparr>],
          user_states = [(''u1'',
            \<lparr>page_id = ''p1'', message_count = 2, label = [], conversation = [],
             conversation_id = None, new_user = True, thread_id = None, run_id = None,
             messages_context = [\<lparr>role = ''user'', content = Text ''hi''\<rparr>,
                                 \<lparr>role = ''assistant'', content = Reply (ResponseDict error_message)\<rparr>],
             last_message_time = IsoTime ''2023-11-14T22:13:20'', has_stop_message = False,
             last_message = ''hi'', rank = None\<rparr>)],
          user_threads = None, sent = [],
          ai_calls = [RetrieveAssistant ''asst_1'']\<rparr>)"
  by (simp add: handler_defs answer_turn_flat Let_def sublist_Cons_right prefix_Cons)


lemma outside_load_user_state:
  "sent (load_user_state env w senderPSID pid user_message) = sent w"
  "ai_calls (load_user_state env w senderPSID pid user_message) = ai_calls w"
  by (simp_all add: load_user_state_def Let_def split: option.splits sum.splits prod.splits)

lemma save_state_fields:
  "sent (save_state env w senderPSID s) = sent w"
  "ai_calls (save_state env w senderPSID s) = ai_calls w"
  by (simp_all add: save_state_def save_user_state_to_db_def save_with_connection_def Let_def
      split: prod.splits)

lemma user_state_save_state:
  "\<exists>s'. user_state (save_state env w senderPSID s) senderPSID = Some s'
         \<and> message_count s' = message_count s
         \<and> has_stop_message s' = has_stop_message s
         \<and> messages_context s' = messages_context s"
  by (simp add: save_state_def save_user_state_to_db_def save_with_connection_def Let_def)

text \<open>
  Claim C4 as stated fails: the stored state has 10 messages and no stop flag, the maximum
  is 10, and after the turn that exceeds it the stop flag is set.
\<close>

theorem max_turns_sets_stop_flag:
  "message_count (state_at_limit_check example_env
       (example_world [] [(''u1'', stored_state ''p1'' (Some ''thread_A'') 10 [])])
       ''u1'' ''p1'' ''hi'') = 11
   \<and> max_messages_of example_env ''p1'' = 10
   \<and> has_stop_message (state_at_limit_check example_env
       (example_world [] [(''u1'', stored_state ''p1'' (Some ''thread_A'') 10 [])])
       ''u1'' ''p1'' ''hi'') = False
   \<and> returned (get_assistant_response example_env
           (example_world [] [(''u1'', stored_state ''p1'' (Some ''thread_A'') 10 [])])
           ''u1'' (text_message None ''hi'') (PageId ''p1''))
     = Some (Inr EndOfConversation)
   \<and> map_option has_stop_message
        (state_after (get_assistant_response example_env
           (example_world [] [(''u1'', stored_state ''p1'' (Some ''thread_A'') 10 [])])
           ''u1'' (text_message None ''hi'') (PageId ''p1'')) ''u1'')
     = Some True"
  by (simp add: handler_defs Let_def returned_def state_after_def)

text \<open>
  Claim C4, amended. When a text turn that is not a duplicate makes \<open>message_count\<close>
  exceed the configured maximum and the send call does not raise, the handler sends the
  configured end message (the fixed default when none is configured) and nothing else,
  makes no call on the AI client, resets \<open>message_count\<close> to 0, and sets
  \<open>has_stop_message\<close> to true.
\<close>

theorem end_of_conversation_rule:
  assumes "text_of m = Some user_message"
    and "mark_processed (pop_index env) (processed_message_ids w) (mid m) = Some ids"
    and "send_error env = None"
    and "pid = map_instagram (case page of PageId p \<Rightarrow> p | PageConfigObject \<Rightarrow> str_of_page_object env)"
    and "message_count (state_at_limit_check env (w\<lparr>processed_message_ids := ids\<rparr>)
           senderPSID pid user_message) > max_messages_of env pid"
  shows "\<exists>w' s'. get_assistant_response env w senderPSID m page = Some (Inr EndOfConversation, w')
           \<and> sent w' = sent w @ [(senderPSID,
                 (case end_message_of env pid of
                    None \<Rightarrow> default_end_message
                  | Some e \<Rightarrow> if e = [] then default_end_message else e), pid)]
           \<and> ai_calls w' = ai_calls w
           \<and> user_state w' senderPSID = Some s'
           \<and> message_count s' = 0
           \<and> has_stop_message s' = True"
proof -
  let ?w0 = "w\<lparr>processed_message_ids := ids\<rparr>"
  let ?w1 = "load_user_state env ?w0 senderPSID pid user_message"
  let ?s = "state_at_limit_check env ?w0 senderPSID pid user_message"
  let ?end_message = "case end_message_of env pid of
                        None \<Rightarrow> default_end_message
                      | Some e \<Rightarrow> if e = [] then default_end_message else e"
  let ?w2 = "?w1\<lparr>user_state := (user_state ?w1)(senderPSID \<mapsto> ?s),
                  sent := sent ?w1 @ [(senderPSID, ?end_message, pid)]\<rparr>"
  let ?w' = "save_state env ?w2 senderPSID (?s\<lparr>message_count := 0, has_stop_message := True\<rparr>)"
  from assms have g: "get_assistant_response env w senderPSID m page = Some (Inr EndOfConversation, ?w')"
    by (simp add: get_assistant_response_def Let_def end_conversation_def callSendAPI_def)
  have o: "sent ?w' = sent w @ [(senderPSID, ?end_message, pid)]" "ai_calls ?w' = ai_calls w"
    by (simp_all add: save_state_fields outside_load_user_state)
  from user_state_save_state [of env ?w2 senderPSID "?s\<lparr>message_count := 0, has_stop_message := True\<rparr>"]
  obtain s' where "user_state ?w' senderPSID = Some s'" "message_count s' = 0"
    "has_stop_message s' = True"
    by auto
  with g o show ?thesis by blast
qed

theorem end_of_conversation_rule_witness:
  "text_of (text_message None ''hi'') = Some ''hi''
   \<and> mark_processed (pop_index example_env) [] (mid (text_message None ''hi'')) = Some []
   \<and> send_error example_env = None
   \<and> message_count (state_at_limit_check example_env
        (example_world [] [(''u1'', stored_state ''p1'' (Some ''thread_A'') 10 [])])
        ''u1'' ''p1'' ''hi'') > max_messages_of example_env ''p1''
   \<and> returned (get_assistant_response example_env
          (example_world [] [(''u1'', stored_state ''p1'' (Some ''thread_A'') 10 [])])
          ''u1'' (text_message None ''hi'') (PageId ''p1'')) = Some (Inr EndOfConversation)
   \<and> map_option sent (world_after (get_assistant_response example_env
          (example_world [] [(''u1'', stored_state ''p1'' (Some ''thread_A'') 10 [])])
          ''u1'' (text_message None ''hi'') (PageId ''p1''))) = Some [(''u1'', ''goodbye'', ''p1'')]
   \<and> map_option ai_calls (world_after (get_assistant_response example_env
          (example_world [] [(''u1'', stored_state ''p1'' (Some ''thread_A'') 10 [])])
          ''u1'' (text_message None ''hi'') (PageId ''p1''))) = Some []
   \<and> map_option message_count (state_after (get_assistant_response example_env
          (example_world [] [(''u1'', stored_state ''p1'' (Some ''thread_A'') 10 [])])
          ''u1'' (text_message None ''hi'') (PageId ''p1'')) ''u1'') = Some 0"
proof -
  let ?w = "example_world [] [(''u1'', stored_state ''p1'' (Some ''thread_A'') 10 [])]"
  have a: "text_of (text_message None ''hi'') = Some ''hi''" by (simp add: text_message_def)
  have b: "mark_processed (pop_index example_env) (processed_message_ids ?w)
             (mid (text_message None ''hi'')) = Some []"
    by (simp add: mark_processed_def truthy_str_def text_message_def example_world_def)
  have c: "send_error example_env = None" by (simp add: example_env_def)
  have d: "''p1'' = map_instagram (case PageId ''p1'' of PageId p \<Rightarrow> p
                                    | PageConfigObject \<Rightarrow> str_of_page_object example_env)"
    by (simp add: map_instagram_def instagram_page_id_def)
  have w: "?w\<lparr>processed_message_ids := []\<rparr> = ?w" by (simp add: example_world_def)
  have e: "message_count (state_at_limit_check example_env (?w\<lparr>processed_message_ids := []\<rparr>)
             ''u1'' ''p1'' ''hi'') > max_messages_of example_env ''p1''"
    unfolding w by (simp add: handler_defs Let_def)
  from end_of_conversation_rule [OF a b c d e] a b c e
  show ?thesis
    by (auto simp: w example_world_def example_env_def returned_def world_after_def
        state_after_def)
qed

text \<open>
  Every text turn that is not a duplicate and stays within the maximum ends with the
  fixed error reply, and the handler appends exactly two entries to the context: the
  user message, and an assistant entry whose content is the reply dict.
\<close>

lemma main_path_appends_two:
  assumes "text_of m = Some user_message"
    and "mark_processed (pop_index env) (processed_message_ids w) (mid m) = Some ids"
    and "pid = map_instagram (case page of PageId p \<Rightarrow> p | PageConfigObject \<Rightarrow> str_of_page_object env)"
    and "\<not> message_count (state_at_limit_check env (w\<lparr>processed_message_ids := ids\<rparr>)
             senderPSID pid user_message) > max_messages_of env pid"
  shows "\<exists>w' s'. get_assistant_response env w senderPSID m page
             = Some (Inr (AssistantReply (ResponseDict error_message)), w')
           \<and> ai_calls w' = ai_calls w @ [RetrieveAssistant (assistant_id_of (chat env) pid)]
           \<and> user_state w' senderPSID = Some s'
           \<and> messages_context s' =
               messages_context (state_at_limit_check env (w\<lparr>processed_message_ids := ids\<rparr>)
                                   senderPSID pid user_message)
               @ [\<lparr>role = ''user'', content = Text user_message\<rparr>,
                  \<lparr>role = ''assistant'', content = Reply (ResponseDict error_message)\<rparr>]"
proof -
  let ?w0 = "w\<lparr>processed_message_ids := ids\<rparr>"
  let ?w1 = "load_user_state env ?w0 senderPSID pid user_message"
  let ?s = "state_at_limit_check env ?w0 senderPSID pid user_message"
  let ?s2 = "?s\<lparr>messages_context := messages_context ?s @
                 [\<lparr>role = ''user'', content = Text user_message\<rparr>,
                  \<lparr>role = ''assistant'', content = Reply (ResponseDict error_message)\<rparr>],
               last_message_time := UnixTime (unix_now env)\<rparr>"
  let ?s3 = "case sentiment_rank env of None \<Rightarrow> ?s2 | Some r \<Rightarrow> ?s2\<lparr>rank := Some r\<rparr>"
  let ?w2 = "?w1\<lparr>ai_calls := ai_calls ?w1 @ [RetrieveAssistant (assistant_id_of (chat env) pid)]\<rparr>"
  let ?w' = "save_state env ?w2 senderPSID ?s3"
  from assms have g: "get_assistant_response env w senderPSID m page
      = Some (Inr (AssistantReply (ResponseDict error_message)), ?w')"
    by (cases "sentiment_rank env")
       (simp_all add: get_assistant_response_def Let_def answer_turn_flat)
  have a: "ai_calls ?w' = ai_calls w @ [RetrieveAssistant (assistant_id_of (chat env) pid)]"
    by (simp add: save_state_fields outside_load_user_state)
  have c: "messages_context ?s3 = messages_context ?s @
                 [\<lparr>role = ''user'', content = Text user_message\<rparr>,
                  \<lparr>role = ''assistant'', content = Reply (ResponseDict error_message)\<rparr>]"
    by (cases "sentiment_rank env") simp_all
  from user_state_save_state [of env ?w2 senderPSID ?s3]
  obtain s' where "user_state ?w' senderPSID = Some s'" "messages_context s' = messages_context ?s3"
    by auto
  with g a c show ?thesis by auto
qed

text \<open>
  Claim C5, at a failing input: the stored context of \<open>u1\<close> holds 20 entries; after one
  turn through \<open>get_assistant_response\<close>, which never trims, it holds 22.
\<close>

theorem main_path_context_exceeds_twenty:
  "length (messages_context (stored_state ''p1'' (Some ''thread_A'') 3 twenty_entries)) = 20
   \<and> map_option messages_context
        (state_after (get_assistant_response example_env
           (example_world [] [(''u1'', stored_state ''p1'' (Some ''thread_A'') 3 twenty_entries)])
           ''u1'' (text_message None ''hi'') (PageId ''p1'')) ''u1'')
     = Some (twenty_entries @
             [\<lparr>role = ''user'', content = Text ''hi''\<rparr>,
              \<lparr>role = ''assistant'', content = Reply (ResponseDict error_message)\<rparr>])
   \<and> length (twenty_entries @
             [\<lparr>role = ''user'', content = Text ''hi''\<rparr>,
              \<lparr>role = ''assistant'', content = Reply (ResponseDict error_message)\<rparr>]) = 22"
  by (simp add: handler_defs answer_turn_flat Let_def twenty_entries_def state_after_def)

text \<open>
  The sibling \<open>fast_process_message\<close> does bound the context: at most 20 entries after
  every turn, and what is kept is the end of the untrimmed list, in order.
\<close>

lemma fast_update_context_bounded: "length (fast_update_context ctx message_text ai_response) \<le> 20"
  by (simp add: fast_update_context_def Let_def)

lemma fast_update_context_fifo:
  "suffix (fast_update_context ctx message_text ai_response)
     (ctx @ [\<lparr>role = ''user'', content = Text message_text\<rparr>,
             \<lparr>role = ''assistant'', content = ai_response\<rparr>])"
  by (simp add: fast_update_context_def Let_def suffix_drop)


text \<open>
  Restoration enters a thread under \<open>sender+page\<close>, while \<open>get_chatgpt_response\<close> looks
  under \<open>sender_page\<close>.
\<close>

lemma restored_thread_key:
  "snd (restore_user_states_from_database (\<lambda>pid. ''asst_1'')
          [(''u1'', stored_state ''p1'' (Some ''thread_A'') 3 [])]) (restore_key ''u1'' ''p1'')
     = Some \<lparr>info_thread_id = Some ''thread_A'', info_assistant_id = ''asst_1'',
             info_last_message = Some ''earlier''\<rparr>
   \<and> snd (restore_user_states_from_database (\<lambda>pid. ''asst_1'')
          [(''u1'', stored_state ''p1'' (Some ''thread_A'') 3 [])]) (conversation_key ''u1'' ''p1'')
     = None"
  by (simp add: restore_user_states_from_database_def restore_row_def restore_key_def
      conversation_key_def stored_state_def truthy_str_def)

text \<open>
  Claim C6, at a failing input: the store holds thread \<open>thread_A\<close> for (\<open>u1\<close>, \<open>p1\<close>) and
  the process was restored from it. The next turn makes one call on the AI client, the
  retrieval of the assistant; no message and no run is submitted to \<open>thread_A\<close>, and the
  reply is the fixed error text.
\<close>

theorem restored_thread_not_used:
  "thread_id (stored_state ''p1'' (Some ''thread_A'') 3 []) = Some ''thread_A''
   \<and> returned
        (get_assistant_response example_env
           (restored_world [(''u1'', stored_state ''p1'' (Some ''thread_A'') 3 [])])
           ''u1'' (text_message None ''hi'') (PageId ''p1''))
     = Some (Inr (AssistantReply (ResponseDict error_message)))
   \<and> map_option ai_calls
        (world_after (get_assistant_response example_env
           (restored_world [(''u1'', stored_state ''p1'' (Some ''thread_A'') 3 [])])
           ''u1'' (text_message None ''hi'') (PageId ''p1'')))
     = Some [RetrieveAssistant ''asst_1'']"
  by (simp add: handler_defs restored_world_def answer_turn_flat Let_def returned_def
      world_after_def)

text \<open>
  Handed a dict keyed by sender id, as its body expects, \<open>get_chatgpt_response\<close> does
  submit the turn to the stored thread and creates none.
\<close>

lemma nested_state_reuses_thread:
  "get_chatgpt_response (chat example_env) None [] ''hi''
     (StatesBySender [(''u1'', stored_state ''p1'' (Some ''thread_A'') 3 [])]) ''u1'' ''p1''
   = Some (ResponseDict ''welcome back'',
           StatesBySender [(''u1'',
             (stored_state ''p1'' (Some ''thread_A'') 3 [])
               \<lparr>messages_context := [\<lparr>role = ''user'', content = Text ''hi''\<rparr>,
                                      \<lparr>role = ''assistant'', content = Text ''welcome back''\<rparr>],
                last_message := ''welcome back''\<rparr>)],
           None,
           [RetrieveAssistant ''asst_1'', ListRuns ''thread_A'', CreateMessage ''thread_A'' ''hi'',
            CreateRun ''thread_A'' ''run_1'', RetrieveRun ''thread_A'' ''run_1'',
            ListMessages ''thread_A''])"
  by (simp add: get_chatgpt_response_def chat_on_entry_def resolve_thread_def
      existing_thread_turn_def finish_turn_def read_reply_def record_last_message_def
      state_items_def py_option_def truthy_str_def is_active_def conversation_key_def
      first_active_run_def limit_passed_def
      example_env_def example_script_def stored_state_def Let_def)

text \<open>
  On the path through \<open>get_assistant_response\<close> the AI manager gets the per-user dict
  and fails at its first lookup: whenever the handler returns an assistant reply, it is
  the fixed error reply. No turn of this path ends with a reply of the assistant.
\<close>

lemma main_path_reply_is_error:
  assumes "get_assistant_response env w senderPSID m page = Some (Inr (AssistantReply r), w')"
  shows "r = ResponseDict error_message"
proof (cases "mark_processed (pop_index env) (processed_message_ids w) (mid m)")
  case None
  with assms show ?thesis by (simp add: get_assistant_response_def Let_def)
next
  case (Some ids)
  show ?thesis
  proof (cases "text_of m")
    case None
    with Some assms show ?thesis
      by (cases "send_error env")
         (simp_all add: get_assistant_response_def Let_def callSendAPI_def)
  next
    case user_message: (Some user_message)
    let ?pid = "map_instagram (case page of PageId p \<Rightarrow> p | PageConfigObject \<Rightarrow> str_of_page_object env)"
    let ?w0 = "w\<lparr>processed_message_ids := ids\<rparr>"
    let ?s = "state_at_limit_check env ?w0 senderPSID ?pid user_message"
    show ?thesis
    proof (cases "message_count ?s > max_messages_of env ?pid")
      case True
      with Some user_message assms show ?thesis
        by (cases "send_error env")
           (simp_all add: get_assistant_response_def Let_def end_conversation_def callSendAPI_def)
    next
      case False
      with Some user_message assms show ?thesis
        by (simp add: get_assistant_response_def Let_def answer_turn_flat)
    qed
  qed
qed


section \<open>Duplicate deliveries\<close>

text \<open>
  Whatever the queue hands to the handler carries no message id, so the handler never
  answers with the duplicate indicator there and the set of processed ids stays as it is.
\<close>

lemma hand_to_handler_never_dedups:
  "hand_to_handler env w calls = Some (results, w')
   \<Longrightarrow> processed_message_ids w' = processed_message_ids w \<and> Inr DuplicateMessage \<notin> set results"
proof (induction calls arbitrary: w results)
  case Nil
  then show ?case by simp
next
  case (Cons call calls)
  obtain senderPSID body pid where call: "call = (senderPSID, body, pid)" by (cases call)
  have "mark_processed (pop_index env) (processed_message_ids w) (mid (message_structure body))
          = Some (processed_message_ids w)"
    by (simp add: mark_processed_def message_structure_def truthy_str_def)
  from handler_after_mark [OF this, of senderPSID "PageId pid"]
  obtain r w1 where g: "get_assistant_response env w senderPSID (message_structure body) (PageId pid)
                          = Some (r, w1)"
    and r: "r \<noteq> Inr DuplicateMessage" and k: "processed_message_ids w1 = processed_message_ids w"
    by blast
  from Cons.prems call g obtain rs where h: "hand_to_handler env w1 calls = Some (rs, w')"
    and rs: "results = r # rs"
    by (auto split: option.splits)
  from Cons.IH [OF h] r k rs show ?case by auto
qed

text \<open>
  Claim C9, at a failing input: the webhook delivers the message with \<open>mid\<close> \<open>m1\<close> and
  text \<open>hi\<close> of user \<open>u1\<close> at time 1000 and delivers the same message again at time 1010;
  the background loop passes at 1005 and at 1015. Each delivery is queued and handed to
  \<open>get_assistant_response\<close> as \<open>{'text': 'hi'}\<close>: the handler processes both (two replies,
  none of them the duplicate indicator), the turn is counted twice, the context holds
  the message twice, and the set of processed ids stays empty.
\<close>

theorem duplicate_delivery_processed_twice:
  "merge_user_messages ''p1'' \<lparr>t_entry = 1000, t_first_check = 1000, t_second_check = 1000\<rparr> []
      ''u1'' (text_message (Some ''m1'') ''hi'') (PageId ''p1'') 30 2
     = \<lparr>queue_after = [(''u1'', \<lparr>entry_page_id = ''p1'', user_messages_queue = [''hi''],
                                  first_message_time = 1000\<rparr>)],
        handed_over = []\<rparr>
   \<and> process_message_queue_pass 1005 handler_returns
        [(''u1'', \<lparr>entry_page_id = ''p1'', user_messages_queue = [''hi''],
                   first_message_time = 1000\<rparr>)]
     = ([], [(''u1'', ''hi'', ''p1'')])
   \<and> merge_user_messages ''p1'' \<lparr>t_entry = 1010, t_first_check = 1010, t_second_check = 1010\<rparr> []
      ''u1'' (text_message (Some ''m1'') ''hi'') (PageId ''p1'') 30 2
     = \<lparr>queue_after = [(''u1'', \<lparr>entry_page_id = ''p1'', user_messages_queue = [''hi''],
                                  first_message_time = 1010\<rparr>)],
        handed_over = []\<rparr>
   \<and> process_message_queue_pass 1015 handler_returns
        [(''u1'', \<lparr>entry_page_id = ''p1'', user_messages_queue = [''hi''],
                   first_message_time = 1010\<rparr>)]
     = ([], [(''u1'', ''hi'', ''p1'')])
   \<and> returned (hand_to_handler example_env (example_world [] [])
                  [(''u1'', ''hi'', ''p1''), (''u1'', ''hi'', ''p1'')])
     = Some [Inr (AssistantReply (ResponseDict error_message)),
             Inr (AssistantReply (ResponseDict error_message))]
   \<and> map_option processed_message_ids
        (world_after (hand_to_handler example_env (example_world [] [])
                        [(''u1'', ''hi'', ''p1''), (''u1'', ''hi'', ''p1'')]))
     = Some []
   \<and> map_option message_count
        (state_after (hand_to_handler example_env (example_world [] [])
                        [(''u1'', ''hi'', ''p1''), (''u1'', ''hi'', ''p1'')]) ''u1'')
     = Some 3
   \<and> map_option messages_context
        (state_after (hand_to_handler example_env (example_world [] [])
                        [(''u1'', ''hi'', ''p1''), (''u1'', ''hi'', ''p1'')]) ''u1'')
     = Some [\<lparr>role = ''user'', content = Text ''hi''\<rparr>,
             \<lparr>role = ''assistant'', content = Reply (ResponseDict error_message)\<rparr>,
             \<lparr>role = ''user'', content = Text ''hi''\<rparr>,
             \<lparr>role = ''assistant'', content = Reply (ResponseDict error_message)\<rparr>]"
  by (simp add: handler_defs answer_turn_flat Let_def message_structure_def returned_def
      world_after_def state_after_def merge_user_messages_def enqueue_def queued_messages_def
      delete_key_def process_message_queue_pass_def due_for_sweep_def handler_returns_def
      sublist_Cons_right prefix_Cons)

text \<open>
  When both deliveries fall into one batching window, the second one completes the batch
  and the handler is given the text of both, \<open>hi hi\<close>, as one turn.
\<close>

lemma duplicate_delivery_merged:
  "handed_over
     (merge_user_messages ''p1'' \<lparr>t_entry = 1001, t_first_check = 1001, t_second_check = 1001\<rparr>
        [(''u1'', \<lparr>entry_page_id = ''p1'', user_messages_queue = [''hi''],
                   first_message_time = 1000\<rparr>)]
        ''u1'' (text_message (Some ''m1'') ''hi'') (PageId ''p1'') 30 2)
   = [(''u1'', ''hi hi'', ''p1'')]"
  by (simp add: merge_user_messages_def enqueue_def queued_messages_def delete_key_def
      first_seen_def map_instagram_def instagram_page_id_def text_message_def Let_def)


section \<open>Waiting for an active run\<close>


text \<open>
  The loop ends as soon as a retrieval shows the run no longer active or the clock read
  after it is past the limit.
\<close>

lemma poll_run_returns:
  "(st', t) \<in> set obs \<Longrightarrow> \<not> is_active st' \<or> timed_out t
   \<Longrightarrow> \<exists>res. poll_run timed_out st obs = Some res"
proof (induction timed_out st obs rule: poll_run.induct)
  case (1 timed_out st)
  then show ?case by simp
next
  case (2 timed_out st st1 t1 rest)
  show ?case
  proof (cases "is_active st \<and> \<not> timed_out t1")
    case False
    then show ?thesis by auto
  next
    case True
    show ?thesis
    proof (cases "(st', t) = (st1, t1)")
      case same: True
      with True "2.prems" have "\<not> is_active st1" by auto
      then have "poll_run timed_out st1 rest = Some (st1, 0)" by (cases rest) auto
      with True show ?thesis by simp
    next
      case False
      with "2.prems" have "(st', t) \<in> set rest" by auto
      from "2.IH" [OF _ _ this "2.prems"(2)] True
      obtain res where "poll_run timed_out st1 rest = Some res" by auto
      with True show ?thesis by (cases res) simp
    qed
  qed
qed





end
